theory Spec2Isabelle
  imports Complex_Main "HOL-Library.AList"
begin

section \<open>Values of the JavaScript runtime\<close>

text \<open>
  JSON payloads (the \<^verbatim>\<open>metadata\<close> columns). An object is an association list, so
  that the key order of the source's object literals is kept.
\<close>

datatype json =
    JNull
  | JBool bool
  | JNum int
  | JStr string
  | JArr "json list"
  | JObj "(string \<times> json) list"

type_synonym json_object = "(string \<times> json) list"

text \<open>JavaScript truthiness of a JSON value (\<^verbatim>\<open>if (v)\<close>).\<close>

fun truthy :: "json \<Rightarrow> bool" where
  "truthy JNull = False"
| "truthy (JBool b) = b"
| "truthy (JNum n) = (n \<noteq> 0)"
| "truthy (JStr s) = (s \<noteq> [])"
| "truthy (JArr xs) = True"
| "truthy (JObj kvs) = True"

text \<open>
  A thrown value: an instance of \<^verbatim>\<open>Error\<close> with its message, or any other non-null value
  (one that has no \<^verbatim>\<open>message\<close> property).
\<close>

datatype js_error = JsError string | JsNonError

text \<open>
  \<^verbatim>\<open>a || b\<close> where \<^verbatim>\<open>a\<close> is a string or undefined: the empty string and undefined are
  both falsy.
\<close>

definition or_string :: "string option \<Rightarrow> string \<Rightarrow> string" where
  "or_string a b = (case a of None \<Rightarrow> b | Some x \<Rightarrow> if x = [] then b else x)"

text \<open>\<^verbatim>\<open>error.message\<close>, undefined on a value that is not an \<^verbatim>\<open>Error\<close>.\<close>

fun message_of :: "js_error \<Rightarrow> string option" where
  "message_of (JsError m) = Some m"
| "message_of JsNonError = None"

text \<open>\<^verbatim>\<open>new AppError(message, statusCode, code)\<close> of the error middleware.\<close>

datatype AppError = AppError string nat string

section \<open>Persisted entities\<close>

text \<open>
  The rows of the tables \<^verbatim>\<open>projects\<close>, \<^verbatim>\<open>rooms\<close>, \<^verbatim>\<open>designs\<close> and \<^verbatim>\<open>uploads\<close> of the
  migration. Field names carry the first letter of their table, since a record field is a
  global constant. Enumerated columns other than the design status are the strings the
  runtime holds; timestamps are milliseconds.
\<close>

datatype DesignStatus = PENDING | PROCESSING | COMPLETED | FAILED

record Project =
  p_id :: string
  p_name :: string
  p_type :: string
  p_style :: string
  p_userId :: string

record Room =
  r_id :: string
  r_projectId :: string
  r_name :: "string option"
  r_type :: string
  r_length :: real
  r_width :: real
  r_height :: real
  r_materials :: "string list"
  r_ambientColor :: "string option"
  r_freePrompt :: "string option"
  r_originalImageUrl :: "string option"

record Design =
  d_id :: string
  d_roomId :: string
  d_imageUrl :: string
  d_prompt :: string
  d_aiProvider :: string
  d_status :: DesignStatus
  d_metadata :: "json_object option"
  d_processingTime :: "int option"
  d_error :: "string option"
  d_createdAt :: nat
  d_updatedAt :: nat

record Upload =
  u_id :: string
  u_roomId :: "string option"
  u_filename :: string
  u_originalName :: string
  u_mimeType :: string
  u_size :: int
  u_url :: string
  u_cloudinaryId :: "string option"
  u_metadata :: "json option"
  u_createdAt :: nat

section \<open>The store\<close>

text \<open>
  The relational store behind the Prisma client: one map per table, keyed by the primary
  key. \<open>journal\<close> is a ghost field: every attempted write to the \<^verbatim>\<open>designs\<close> table
  appends an entry with the operation, the row id, the status the write sets and the row
  as committed (\<open>None\<close> when the store rejected the write).
\<close>

datatype write_op = CreateOp | UpdateOp

record journal_entry =
  j_op :: write_op
  j_id :: string
  j_status :: "DesignStatus option"
  j_row :: "Design option"

record store =
  projects :: "string \<rightharpoonup> Project"
  rooms :: "string \<rightharpoonup> Room"
  designs :: "string \<rightharpoonup> Design"
  uploads :: "string \<rightharpoonup> Upload"
  journal :: "journal_entry list"

text \<open>
  What the environment decides about one write: whether the store rejects it for a reason
  of its own (\<open>fault\<close>, the message of the error thrown) and the time the store stamps
  on the row.
\<close>

record store_call =
  fault :: "string option"
  clock :: nat

definition record_write :: "journal_entry \<Rightarrow> store \<Rightarrow> store" where
  "record_write e s = s\<lparr>journal := journal s @ [e]\<rparr>"

text \<open>
  \<^verbatim>\<open>prisma.room.findUnique({ where: { id }, include: { project } })\<close>. The foreign key
  \<^verbatim>\<open>rooms_projectId_fkey\<close> excludes a room without its project in the deployed store; the
  model keeps that case as an error of the query, so that no well-formedness of the store
  has to be assumed.
\<close>

definition room_findUnique :: "store \<Rightarrow> string \<Rightarrow> js_error + (Room \<times> Project) option" where
  "room_findUnique s roomId =
     (case rooms s roomId of
        None \<Rightarrow> Inr None
      | Some room \<Rightarrow>
          (case projects s (r_projectId room) of
             None \<Rightarrow> Inl (JsError ''Inconsistent query result'')
           | Some project \<Rightarrow> Inr (Some (room, project))))"

text \<open>
  \<^verbatim>\<open>prisma.design.findUnique({ where: { id }, include: { room: { include: { project } } } })\<close>.
\<close>

definition design_findUnique ::
  "store \<Rightarrow> string \<Rightarrow> js_error + (Design \<times> Room \<times> Project) option" where
  "design_findUnique s designId =
     (case designs s designId of
        None \<Rightarrow> Inr None
      | Some design \<Rightarrow>
          (case room_findUnique s (d_roomId design) of
             Inl e \<Rightarrow> Inl e
           | Inr None \<Rightarrow> Inl (JsError ''Inconsistent query result'')
           | Inr (Some (room, project)) \<Rightarrow> Inr (Some (design, room, project))))"

text \<open>
  \<^verbatim>\<open>prisma.upload.findUnique({ where: { id }, include: { room: { ... project } } })\<close>. The
  room of an upload is optional (\<^verbatim>\<open>roomId TEXT\<close>, \<^verbatim>\<open>ON DELETE SET NULL\<close>).
\<close>

definition upload_findUnique ::
  "store \<Rightarrow> string \<Rightarrow> js_error + (Upload \<times> (Room \<times> Project) option) option" where
  "upload_findUnique s uploadId =
     (case uploads s uploadId of
        None \<Rightarrow> Inr None
      | Some upload \<Rightarrow>
          (case u_roomId upload of
             None \<Rightarrow> Inr (Some (upload, None))
           | Some roomId \<Rightarrow>
               (case room_findUnique s roomId of
                  Inl e \<Rightarrow> Inl e
                | Inr None \<Rightarrow> Inl (JsError ''Inconsistent query result'')
                | Inr (Some rp) \<Rightarrow> Inr (Some (upload, Some rp)))))"

text \<open>
  \<^verbatim>\<open>prisma.design.create({ data })\<close>. The id is generated outside the model and passed in;
  the primary key \<^verbatim>\<open>designs_pkey\<close> rejects an id already present and the foreign key
  \<^verbatim>\<open>designs_roomId_fkey\<close> a room that is absent. The columns not given take their
  defaults: \<^verbatim>\<open>metadata\<close>, \<^verbatim>\<open>processingTime\<close> and \<^verbatim>\<open>error\<close> are null.
\<close>

record design_create_data =
  c_roomId :: string
  c_imageUrl :: string
  c_prompt :: string
  c_aiProvider :: string
  c_status :: DesignStatus

definition design_create ::
  "store_call \<Rightarrow> string \<Rightarrow> design_create_data \<Rightarrow> store \<Rightarrow> (js_error + Design) \<times> store" where
  "design_create call newId data s =
     (let rejected = \<lparr>j_op = CreateOp, j_id = newId, j_status = Some (c_status data), j_row = None\<rparr>
      in case fault call of
        Some m \<Rightarrow> (Inl (JsError m), record_write rejected s)
      | None \<Rightarrow>
          if designs s newId \<noteq> None then
            (Inl (JsError ''Unique constraint failed''), record_write rejected s)
          else if rooms s (c_roomId data) = None then
            (Inl (JsError ''Foreign key constraint failed''), record_write rejected s)
          else
            (let design = \<lparr>d_id = newId, d_roomId = c_roomId data, d_imageUrl = c_imageUrl data,
                   d_prompt = c_prompt data, d_aiProvider = c_aiProvider data,
                   d_status = c_status data, d_metadata = None, d_processingTime = None,
                   d_error = None, d_createdAt = clock call, d_updatedAt = clock call\<rparr>
             in (Inr design,
                 record_write (rejected\<lparr>j_row := Some design\<rparr>)
                   (s\<lparr>designs := (designs s)(newId \<mapsto> design)\<rparr>))))"

text \<open>
  \<^verbatim>\<open>prisma.design.update({ where: { id }, data })\<close>: a partial patch, a field that is
  undefined in \<^verbatim>\<open>data\<close> is left as it is; the update of an absent id is rejected.
\<close>

record design_patch =
  set_imageUrl :: "string option"
  set_prompt :: "string option"
  set_status :: "DesignStatus option"
  set_processingTime :: "int option"
  set_metadata :: "json_object option"
  set_error :: "string option"

definition no_patch :: design_patch where
  "no_patch = \<lparr>set_imageUrl = None, set_prompt = None, set_status = None,
     set_processingTime = None, set_metadata = None, set_error = None\<rparr>"

definition apply_patch :: "design_patch \<Rightarrow> Design \<Rightarrow> Design" where
  "apply_patch p d =
     d\<lparr>d_imageUrl := (case set_imageUrl p of None \<Rightarrow> d_imageUrl d | Some v \<Rightarrow> v),
       d_prompt := (case set_prompt p of None \<Rightarrow> d_prompt d | Some v \<Rightarrow> v),
       d_status := (case set_status p of None \<Rightarrow> d_status d | Some v \<Rightarrow> v),
       d_processingTime :=
         (case set_processingTime p of None \<Rightarrow> d_processingTime d | Some v \<Rightarrow> Some v),
       d_metadata := (case set_metadata p of None \<Rightarrow> d_metadata d | Some v \<Rightarrow> Some v),
       d_error := (case set_error p of None \<Rightarrow> d_error d | Some v \<Rightarrow> Some v)\<rparr>"

definition design_update ::
  "store_call \<Rightarrow> string \<Rightarrow> design_patch \<Rightarrow> store \<Rightarrow> (js_error + Design) \<times> store" where
  "design_update call designId data s =
     (let rejected = \<lparr>j_op = UpdateOp, j_id = designId, j_status = set_status data, j_row = None\<rparr>
      in case fault call of
        Some m \<Rightarrow> (Inl (JsError m), record_write rejected s)
      | None \<Rightarrow>
          (case designs s designId of
             None \<Rightarrow> (Inl (JsError ''Record to update not found''), record_write rejected s)
           | Some d \<Rightarrow>
               (let design = (apply_patch data d)\<lparr>d_updatedAt := clock call\<rparr>
                in (Inr design,
                    record_write (rejected\<lparr>j_row := Some design\<rparr>)
                      (s\<lparr>designs := (designs s)(designId \<mapsto> design)\<rparr>)))))"

section \<open>The design service\<close>

subsection \<open>Responses\<close>

record ProjectDetails =
  pd_id :: string
  pd_name :: string
  pd_type :: string
  pd_style :: string

record RoomDetails =
  rd_id :: string
  rd_name :: "string option"
  rd_type :: string
  rd_length :: real
  rd_width :: real
  rd_height :: real
  rd_materials :: "string list"
  rd_ambientColor :: "string option"
  rd_freePrompt :: "string option"
  rd_originalImageUrl :: "string option"
  rd_project :: ProjectDetails

record DesignResponse =
  f_id :: string
  f_roomId :: string
  f_imageUrl :: string
  f_prompt :: string
  f_aiProvider :: string
  f_status :: DesignStatus
  f_processingTime :: "int option"
  f_error :: "string option"
  f_metadata :: "json_object option"
  f_createdAt :: nat
  f_updatedAt :: nat
  f_room :: "RoomDetails option"
  f_allImageUrls :: "json option"

text \<open>
  \<^verbatim>\<open>formatDesignResponse(design, includeRoomDetails)\<close>. The second argument here is
  \<^verbatim>\<open>design.room\<close>, present when the query included it. The two timestamps are rendered by
  \<^verbatim>\<open>toISOString\<close> in the source; the model returns the instants themselves.
\<close>

definition formatDesignResponse ::
  "Design \<Rightarrow> (Room \<times> Project) option \<Rightarrow> bool \<Rightarrow> DesignResponse" where
  "formatDesignResponse design room includeRoomDetails =
     \<lparr>f_id = d_id design, f_roomId = d_roomId design, f_imageUrl = d_imageUrl design,
      f_prompt = d_prompt design, f_aiProvider = d_aiProvider design,
      f_status = d_status design, f_processingTime = d_processingTime design,
      f_error = d_error design, f_metadata = d_metadata design,
      f_createdAt = d_createdAt design, f_updatedAt = d_updatedAt design,
      f_room =
        (if includeRoomDetails then
           (case room of
              None \<Rightarrow> None
            | Some (r, p) \<Rightarrow>
                Some \<lparr>rd_id = r_id r, rd_name = r_name r, rd_type = r_type r,
                  rd_length = r_length r, rd_width = r_width r, rd_height = r_height r,
                  rd_materials = r_materials r, rd_ambientColor = r_ambientColor r,
                  rd_freePrompt = r_freePrompt r,
                  rd_originalImageUrl = r_originalImageUrl r,
                  rd_project = \<lparr>pd_id = p_id p, pd_name = p_name p, pd_type = p_type p,
                    pd_style = p_style p\<rparr>\<rparr>)
         else None),
      f_allImageUrls =
        (case d_metadata design of
           None \<Rightarrow> None
         | Some md \<Rightarrow>
             (case map_of md ''allImageUrls'' of
                None \<Rightarrow> None
              | Some v \<Rightarrow> if truthy v then Some v else None))\<rparr>"

subsection \<open>Initiating a generation\<close>

record GenerateDesignDto =
  g_roomId :: string
  g_customPrompt :: "string option"
  g_aiProvider :: "string option"

text \<open>
  The detached call \<^verbatim>\<open>this.processDesignGeneration(design.id, room, customPrompt, aiProvider)\<close>
  that \<^verbatim>\<open>generateDesign\<close> starts and does not await: its four arguments.
\<close>

record task =
  t_designId :: string
  t_room :: "Room \<times> Project"
  t_customPrompt :: "string option"
  t_aiProvider :: string

text \<open>What the environment supplies to one call of \<^verbatim>\<open>generateDesign\<close>.\<close>

record sync_env =
  newId :: string
  create_call :: store_call

text \<open>
  \<^verbatim>\<open>generateDesign(userId, designData)\<close>: the value the promise settles with (\<open>Inl\<close> the
  \<^verbatim>\<open>AppError\<close> thrown), the store after the call, and the detached task it has started.
\<close>

definition generateDesign ::
  "sync_env \<Rightarrow> string \<Rightarrow> GenerateDesignDto \<Rightarrow> store \<Rightarrow>
     (AppError + DesignResponse) \<times> store \<times> task option" where
  "generateDesign env userId designData s =
     (let roomId = g_roomId designData;
          customPrompt = g_customPrompt designData;
          aiProvider = (case g_aiProvider designData of None \<Rightarrow> ''replicate'' | Some p \<Rightarrow> p)
      in case room_findUnique s roomId of
        Inl e \<Rightarrow>
          (Inl (AppError ''Failed to initiate design generation'' 500 ''DESIGN_GENERATION_ERROR''),
           s, None)
      | Inr None \<Rightarrow> (Inl (AppError ''Room not found'' 404 ''ROOM_NOT_FOUND''), s, None)
      | Inr (Some room) \<Rightarrow>
          if p_userId (snd room) \<noteq> userId then
            (Inl (AppError ''Access denied. You can only generate designs for your own rooms.''
               403 ''ACCESS_DENIED''), s, None)
          else
            (case design_create (create_call env) (newId env)
                    \<lparr>c_roomId = roomId, c_imageUrl = '''',
                     c_prompt = or_string customPrompt '''', c_aiProvider = aiProvider,
                     c_status = PENDING\<rparr> s of
               (Inl e, s1) \<Rightarrow>
                 (Inl (AppError ''Failed to initiate design generation'' 500
                    ''DESIGN_GENERATION_ERROR''), s1, None)
             | (Inr design, s1) \<Rightarrow>
                 (Inr (formatDesignResponse design None False), s1,
                  Some \<lparr>t_designId = d_id design, t_room = room,
                    t_customPrompt = customPrompt, t_aiProvider = aiProvider\<rparr>)))"

subsection \<open>The background generation task\<close>

text \<open>The types of the generation provider adapter (\<^verbatim>\<open>AIService.generateDesign\<close>).\<close>

record AIPromptData =
  a_roomType :: string
  a_style :: string
  a_length :: real
  a_width :: real
  a_height :: real
  a_materials :: "string list"
  a_ambientColor :: "string option"
  a_customPrompt :: "string option"

record AIOptions =
  o_provider :: string
  o_inputImageUrl :: "string option"

record AIGenerationResult =
  imageUrls :: "string list"
  prompt :: string
  metadata :: json_object

text \<open>
  What the environment supplies to one run of the detached task: the three readings of
  \<^verbatim>\<open>Date.now()\<close> (on entry, after the provider has answered, in the \<^verbatim>\<open>catch\<close> block), the
  provider adapter \<^verbatim>\<open>AIService.generateDesign\<close>, an external collaborator that may return
  or throw anything, and the fate of each of the four writes the task can attempt.
\<close>

record job_env =
  now_start :: int
  now_success :: int
  now_failure :: int
  aiService_generateDesign :: "AIPromptData \<Rightarrow> AIOptions \<Rightarrow> js_error + AIGenerationResult"
  w_processing :: store_call
  w_completed :: store_call
  w_failed :: store_call
  w_secondary :: store_call

text \<open>
  The data of the update to \<open>PROCESSING\<close>, of the update in the \<^verbatim>\<open>catch\<close> block
  (\<^verbatim>\<open>error instanceof Error ? error.message : "Unknown error"\<close>) and of the secondary
  update in the handler of the detached call
  (\<^verbatim>\<open>error.message || "Design generation failed"\<close>).
\<close>

definition processing_patch :: design_patch where
  "processing_patch = no_patch\<lparr>set_status := Some PROCESSING\<rparr>"

definition failed_patch :: "js_error \<Rightarrow> int \<Rightarrow> design_patch" where
  "failed_patch error processingTime =
     no_patch\<lparr>set_status := Some FAILED,
       set_processingTime := Some processingTime,
       set_error := Some (case error of JsError m \<Rightarrow> m | JsNonError \<Rightarrow> ''Unknown error'')\<rparr>"

definition secondary_patch :: "js_error \<Rightarrow> design_patch" where
  "secondary_patch error =
     no_patch\<lparr>set_status := Some FAILED,
       set_error := Some (or_string (message_of error) ''Design generation failed'')\<rparr>"

text \<open>
  The \<^verbatim>\<open>catch\<close> block of \<^verbatim>\<open>processDesignGeneration\<close>. Its own update is awaited
  inside the block, so a rejection of that update rejects the task's promise.
\<close>

definition processDesignGeneration_catch ::
  "job_env \<Rightarrow> string \<Rightarrow> int \<Rightarrow> js_error \<Rightarrow> store \<Rightarrow> (js_error + unit) \<times> store" where
  "processDesignGeneration_catch env designId startTime error s =
     (let processingTime = now_failure env - startTime
      in case design_update (w_failed env) designId (failed_patch error processingTime) s of
           (Inl e, s1) \<Rightarrow> (Inl e, s1)
         | (Inr d, s1) \<Rightarrow> (Inr (), s1))"

text \<open>
  The object literals \<^verbatim>\<open>promptData\<close> and \<^verbatim>\<open>{ provider, inputImageUrl }\<close> that
  \<^verbatim>\<open>processDesignGeneration\<close> hands to the provider adapter.
\<close>

definition promptData_of :: "Room \<times> Project \<Rightarrow> string option \<Rightarrow> AIPromptData" where
  "promptData_of room customPrompt =
     \<lparr>a_roomType = r_type (fst room), a_style = p_style (snd room),
      a_length = r_length (fst room), a_width = r_width (fst room),
      a_height = r_height (fst room), a_materials = r_materials (fst room),
      a_ambientColor = r_ambientColor (fst room), a_customPrompt = customPrompt\<rparr>"

definition options_of :: "Room \<times> Project \<Rightarrow> string \<Rightarrow> AIOptions" where
  "options_of room aiProvider =
     \<lparr>o_provider = aiProvider, o_inputImageUrl = r_originalImageUrl (fst room)\<rparr>"

text \<open>
  The patch of the successful outcome. \<^verbatim>\<open>imageUrls[0]\<close> of an empty list is undefined,
  which leaves \<^verbatim>\<open>imageUrl\<close> out of the patch; the spread
  \<^verbatim>\<open>{...aiResult.metadata, allImageUrls: aiResult.imageUrls}\<close> replaces the key where it
  stands or appends it.
\<close>

definition completed_patch :: "AIGenerationResult \<Rightarrow> int \<Rightarrow> design_patch" where
  "completed_patch aiResult processingTime =
     no_patch\<lparr>set_imageUrl := (case imageUrls aiResult of [] \<Rightarrow> None | u # us \<Rightarrow> Some u),
       set_prompt := Some (prompt aiResult),
       set_status := Some COMPLETED,
       set_processingTime := Some processingTime,
       set_metadata :=
         Some (AList.update ''allImageUrls'' (JArr (map JStr (imageUrls aiResult)))
                 (metadata aiResult))\<rparr>"

text \<open>
  \<^verbatim>\<open>processDesignGeneration(designId, room, customPrompt, aiProvider)\<close>: how its promise
  settles, and the store afterwards.
\<close>

definition processDesignGeneration ::
  "job_env \<Rightarrow> string \<Rightarrow> Room \<times> Project \<Rightarrow> string option \<Rightarrow> string \<Rightarrow> store \<Rightarrow>
     (js_error + unit) \<times> store" where
  "processDesignGeneration env designId room customPrompt aiProvider s =
     (let startTime = now_start env
      in case design_update (w_processing env) designId processing_patch s of
           (Inl error, s1) \<Rightarrow> processDesignGeneration_catch env designId startTime error s1
         | (Inr d, s1) \<Rightarrow>
             (case aiService_generateDesign env (promptData_of room customPrompt)
                     (options_of room aiProvider) of
                Inl error \<Rightarrow> processDesignGeneration_catch env designId startTime error s1
              | Inr aiResult \<Rightarrow>
                  (let processingTime = now_success env - startTime
                   in case design_update (w_completed env) designId
                             (completed_patch aiResult processingTime) s1 of
                        (Inl error, s2) \<Rightarrow>
                          processDesignGeneration_catch env designId startTime error s2
                      | (Inr d2, s2) \<Rightarrow> (Inr (), s2))))"

text \<open>
  The detached call as \<^verbatim>\<open>generateDesign\<close> writes it:
  \<^verbatim>\<open>this.processDesignGeneration(...).catch((error) => { this.prisma.design.update(...).catch(log) })\<close>,
  the secondary update writing \<^verbatim>\<open>error.message || "Design generation failed"\<close>. The result
  is how the promise returned by the outer \<^verbatim>\<open>.catch\<close> settles.
\<close>

definition detached :: "job_env \<Rightarrow> task \<Rightarrow> store \<Rightarrow> (js_error + unit) \<times> store" where
  "detached env t s =
     (case processDesignGeneration env (t_designId t) (t_room t) (t_customPrompt t)
             (t_aiProvider t) s of
        (Inr u, s1) \<Rightarrow> (Inr (), s1)
      | (Inl error, s1) \<Rightarrow>
          (case design_update (w_secondary env) (t_designId t) (secondary_patch error) s1 of
             (Inl updateError, s2) \<Rightarrow> (Inr (), s2)
           | (Inr d, s2) \<Rightarrow> (Inr (), s2)))"

text \<open>
  A request and, after it has been answered, its detached task run to the end: the answer
  to the caller, how the detached promise settled, and the final store.
\<close>

definition generateDesign_then_task ::
  "sync_env \<Rightarrow> job_env \<Rightarrow> string \<Rightarrow> GenerateDesignDto \<Rightarrow> store \<Rightarrow>
     (AppError + DesignResponse) \<times> (js_error + unit) \<times> store" where
  "generateDesign_then_task env jenv userId designData s =
     (case generateDesign env userId designData s of
        (response, s1, None) \<Rightarrow> (response, Inr (), s1)
      | (response, s1, Some t) \<Rightarrow>
          (case detached jenv t s1 of (settled, s2) \<Rightarrow> (response, settled, s2)))"

subsection \<open>Reading, deleting and regenerating a design\<close>

text \<open>\<^verbatim>\<open>getDesignById(designId, userId)\<close>.\<close>

definition getDesignById :: "string \<Rightarrow> string \<Rightarrow> store \<Rightarrow> AppError + DesignResponse" where
  "getDesignById designId userId s =
     (case design_findUnique s designId of
        Inl e \<Rightarrow> Inl (AppError ''Failed to get design'' 500 ''GET_DESIGN_ERROR'')
      | Inr None \<Rightarrow> Inl (AppError ''Design not found'' 404 ''DESIGN_NOT_FOUND'')
      | Inr (Some (design, room, project)) \<Rightarrow>
          if p_userId project \<noteq> userId then
            Inl (AppError ''Access denied. You can only view your own designs.'' 403
              ''ACCESS_DENIED'')
          else Inr (formatDesignResponse design (Some (room, project)) True))"

record RegenerateOptions =
  ro_aiProvider :: "string option"
  ro_customPrompt :: "string option"

text \<open>
  The argument \<^verbatim>\<open>regenerateDesign\<close> passes to \<^verbatim>\<open>generateDesign\<close>:
  \<^verbatim>\<open>options?.customPrompt || originalDesign.prompt\<close> and
  \<^verbatim>\<open>options?.aiProvider || originalDesign.aiProvider\<close>.
\<close>

definition regenerate_dto :: "Design \<Rightarrow> RegenerateOptions option \<Rightarrow> GenerateDesignDto" where
  "regenerate_dto originalDesign options =
     \<lparr>g_roomId = d_roomId originalDesign,
      g_customPrompt =
        Some (or_string (case options of None \<Rightarrow> None | Some opt \<Rightarrow> ro_customPrompt opt)
                (d_prompt originalDesign)),
      g_aiProvider =
        Some (or_string (case options of None \<Rightarrow> None | Some opt \<Rightarrow> ro_aiProvider opt)
                (d_aiProvider originalDesign))\<rparr>"

text \<open>\<^verbatim>\<open>regenerateDesign(designId, userId, options)\<close>.\<close>

definition regenerateDesign ::
  "sync_env \<Rightarrow> string \<Rightarrow> string \<Rightarrow> RegenerateOptions option \<Rightarrow> store \<Rightarrow>
     (AppError + DesignResponse) \<times> store \<times> task option" where
  "regenerateDesign env designId userId options s =
     (case design_findUnique s designId of
        Inl e \<Rightarrow>
          (Inl (AppError ''Failed to regenerate design'' 500 ''DESIGN_REGENERATION_ERROR''),
           s, None)
      | Inr None \<Rightarrow> (Inl (AppError ''Design not found'' 404 ''DESIGN_NOT_FOUND''), s, None)
      | Inr (Some (originalDesign, room, project)) \<Rightarrow>
          if p_userId project \<noteq> userId then
            (Inl (AppError ''Access denied. You can only regenerate your own designs.'' 403
               ''ACCESS_DENIED''), s, None)
          else generateDesign env userId (regenerate_dto originalDesign options) s)"

text \<open>A regeneration request followed by the detached task of the new design.\<close>

definition regenerateDesign_then_task ::
  "sync_env \<Rightarrow> job_env \<Rightarrow> string \<Rightarrow> string \<Rightarrow> RegenerateOptions option \<Rightarrow> store \<Rightarrow>
     (AppError + DesignResponse) \<times> (js_error + unit) \<times> store" where
  "regenerateDesign_then_task env jenv designId userId options s =
     (case regenerateDesign env designId userId options s of
        (response, s1, None) \<Rightarrow> (response, Inr (), s1)
      | (response, s1, Some t) \<Rightarrow>
          (case detached jenv t s1 of (settled, s2) \<Rightarrow> (response, settled, s2)))"

section \<open>The upload service\<close>

record UploadProject =
  up_id :: string
  up_name :: string
  up_userId :: string

record UploadRoom =
  ur_id :: string
  ur_name :: "string option"
  ur_type :: string
  ur_project :: UploadProject

record UploadResponse =
  v_id :: string
  v_filename :: string
  v_originalName :: string
  v_mimeType :: string
  v_size :: int
  v_url :: string
  v_cloudinaryId :: "string option"
  v_metadata :: "json option"
  v_createdAt :: nat
  v_room :: "UploadRoom option"

text \<open>\<^verbatim>\<open>getUploadById(uploadId)\<close>: the service method takes no user id.\<close>

definition getUploadById :: "string \<Rightarrow> store \<Rightarrow> AppError + UploadResponse" where
  "getUploadById uploadId s =
     (case upload_findUnique s uploadId of
        Inl e \<Rightarrow> Inl (AppError ''Failed to get upload'' 500 ''GET_UPLOAD_ERROR'')
      | Inr None \<Rightarrow> Inl (AppError ''Upload not found'' 404 ''UPLOAD_NOT_FOUND'')
      | Inr (Some (upload, room)) \<Rightarrow>
          Inr \<lparr>v_id = u_id upload, v_filename = u_filename upload,
               v_originalName = u_originalName upload, v_mimeType = u_mimeType upload,
               v_size = u_size upload, v_url = u_url upload,
               v_cloudinaryId = u_cloudinaryId upload, v_metadata = u_metadata upload,
               v_createdAt = u_createdAt upload,
               v_room =
                 (case room of
                    None \<Rightarrow> None
                  | Some (r, p) \<Rightarrow>
                      Some \<lparr>ur_id = r_id r, ur_name = r_name r, ur_type = r_type r,
                        ur_project = \<lparr>up_id = p_id p, up_name = p_name p,
                          up_userId = p_userId p\<rparr>\<rparr>)\<rparr>)"

text \<open>
  The handler \<^verbatim>\<open>UploadController.getUpload\<close>: the authenticated user of the request is
  not read, only \<^verbatim>\<open>req.params.id\<close> reaches the service.
\<close>

definition getUpload :: "string \<Rightarrow> string \<Rightarrow> store \<Rightarrow> AppError + UploadResponse" where
  "getUpload req_user_id req_params_id s = getUploadById req_params_id s"

text \<open>
  \<^verbatim>\<open>deleteUpload(uploadId, userId)\<close>, the sibling of \<^verbatim>\<open>getUploadById\<close>, with the check
  \<^verbatim>\<open>upload.room?.project?.userId !== userId\<close>. The removal of the hosted image is
  best-effort and outside the store.
\<close>

definition deleteUpload :: "string \<Rightarrow> string \<Rightarrow> store \<Rightarrow> (AppError + unit) \<times> store" where
  "deleteUpload uploadId userId s =
     (case upload_findUnique s uploadId of
        Inl e \<Rightarrow> (Inl (AppError ''Failed to delete upload'' 500 ''DELETE_UPLOAD_ERROR''), s)
      | Inr None \<Rightarrow> (Inl (AppError ''Upload not found'' 404 ''UPLOAD_NOT_FOUND''), s)
      | Inr (Some (upload, room)) \<Rightarrow>
          if map_option (\<lambda>rp. p_userId (snd rp)) room \<noteq> Some userId then
            (Inl (AppError ''Access denied. You can only delete your own uploads.'' 403
               ''ACCESS_DENIED''), s)
          else (Inr (), s\<lparr>uploads := (uploads s)(uploadId := None)\<rparr>))"

section \<open>Observing the life of a design row\<close>

text \<open>A terminal status of the job's state machine.\<close>

definition terminal :: "DesignStatus \<Rightarrow> bool" where
  "terminal st = (st = COMPLETED \<or> st = FAILED)"

text \<open>
  The statuses the journalled writes tried to set, in order, and the statuses the row
  took, in order: those of the writes the store committed.
\<close>

definition attempted_statuses :: "journal_entry list \<Rightarrow> DesignStatus list" where
  "attempted_statuses js = List.map_filter j_status js"

definition committed_statuses :: "journal_entry list \<Rightarrow> DesignStatus list" where
  "committed_statuses js = map d_status (List.map_filter j_row js)"

text \<open>
  The row and the store after an update that the store commits, and the store after one
  it rejects.
\<close>

definition patched :: "store_call \<Rightarrow> design_patch \<Rightarrow> Design \<Rightarrow> Design" where
  "patched call data d = (apply_patch data d)\<lparr>d_updatedAt := clock call\<rparr>"

definition commit_update :: "store_call \<Rightarrow> string \<Rightarrow> design_patch \<Rightarrow> Design \<Rightarrow> store \<Rightarrow> store" where
  "commit_update call designId data d s =
     s\<lparr>designs := (designs s)(designId \<mapsto> patched call data d),
       journal := journal s @ [\<lparr>j_op = UpdateOp, j_id = designId, j_status = set_status data,
         j_row = Some (patched call data d)\<rparr>]\<rparr>"

definition reject_update :: "string \<Rightarrow> design_patch \<Rightarrow> store \<Rightarrow> store" where
  "reject_update designId data s =
     s\<lparr>journal := journal s @ [\<lparr>j_op = UpdateOp, j_id = designId, j_status = set_status data,
         j_row = None\<rparr>]\<rparr>"

text \<open>The journal entries a run has added to the journal of the store it started from.\<close>

definition added_writes :: "store \<Rightarrow> store \<Rightarrow> journal_entry list" where
  "added_writes s s' = drop (length (journal s)) (journal s')"

section \<open>A concrete store\<close>

text \<open>
  The scenario of the specification: a project in Scandinavian style owned by one user,
  a bedroom in it, and an upload attached to the room. A second user owns nothing.
\<close>

definition project1 :: Project where
  "project1 = \<lparr>p_id = ''p1'', p_name = ''Flat'', p_type = ''RESIDENTIAL'',
     p_style = ''SCANDINAVIAN'', p_userId = ''alice''\<rparr>"

definition room1 :: Room where
  "room1 = \<lparr>r_id = ''r1'', r_projectId = ''p1'', r_name = Some ''Bedroom'',
     r_type = ''BEDROOM'', r_length = 4.5, r_width = 3.2, r_height = 2.7,
     r_materials = [''wood''], r_ambientColor = None, r_freePrompt = None,
     r_originalImageUrl = None\<rparr>"

definition upload1 :: Upload where
  "upload1 = \<lparr>u_id = ''u1'', u_roomId = Some ''r1'', u_filename = ''bedroom.jpg'',
     u_originalName = ''bedroom.jpg'', u_mimeType = ''image/jpeg'', u_size = 1024,
     u_url = ''https://cdn/bedroom.jpg'', u_cloudinaryId = Some ''bedroom'',
     u_metadata = None, u_createdAt = 5\<rparr>"

definition store1 :: store where
  "store1 = \<lparr>projects = [''p1'' \<mapsto> project1], rooms = [''r1'' \<mapsto> room1],
     designs = Map.empty, uploads = [''u1'' \<mapsto> upload1], journal = []\<rparr>"

definition call_ok :: "nat \<Rightarrow> store_call" where
  "call_ok t = \<lparr>fault = None, clock = t\<rparr>"

definition call_down :: "nat \<Rightarrow> store_call" where
  "call_down t = \<lparr>fault = Some ''Connection lost'', clock = t\<rparr>"

definition env1 :: sync_env where
  "env1 = \<lparr>newId = ''d1'', create_call = call_ok 10\<rparr>"

definition env2 :: sync_env where
  "env2 = \<lparr>newId = ''d2'', create_call = call_ok 50\<rparr>"

definition dto1 :: GenerateDesignDto where
  "dto1 = \<lparr>g_roomId = ''r1'', g_customPrompt = None, g_aiProvider = None\<rparr>"

definition dto_plants :: GenerateDesignDto where
  "dto_plants = \<lparr>g_roomId = ''r1'', g_customPrompt = Some ''Add plants'',
     g_aiProvider = Some ''openai''\<rparr>"

text \<open>The provider stubs of the testable properties P3 and P4.\<close>

definition result1 :: AIGenerationResult where
  "result1 = \<lparr>imageUrls = [''u1'', ''u2''], prompt = ''p'', metadata = [(''m'', JNum 1)]\<rparr>"

definition provider_ok :: "AIPromptData \<Rightarrow> AIOptions \<Rightarrow> js_error + AIGenerationResult" where
  "provider_ok pd opts = Inr result1"

definition provider_boom :: "AIPromptData \<Rightarrow> AIOptions \<Rightarrow> js_error + AIGenerationResult" where
  "provider_boom pd opts = Inl (JsError ''boom'')"

definition jenv_ok :: job_env where
  "jenv_ok = \<lparr>now_start = 1000, now_success = 4000, now_failure = 4500,
     aiService_generateDesign = provider_ok, w_processing = call_ok 20,
     w_completed = call_ok 30, w_failed = call_ok 31, w_secondary = call_ok 32\<rparr>"

definition jenv_boom :: job_env where
  "jenv_boom = jenv_ok\<lparr>aiService_generateDesign := provider_boom\<rparr>"

text \<open>An outage of the store that ends before the secondary update, and one that does not.\<close>

definition jenv_outage :: job_env where
  "jenv_outage = jenv_ok\<lparr>w_processing := call_down 20, w_failed := call_down 31\<rparr>"

definition jenv_outage_long :: job_env where
  "jenv_outage_long = jenv_outage\<lparr>w_secondary := call_down 32\<rparr>"

text \<open>
  The store failing later: on the write of the successful outcome only; on the write of
  the \<^verbatim>\<open>catch\<close> block after the provider has thrown; and on that write and the
  secondary update both.
\<close>

definition jenv_late_outage :: job_env where
  "jenv_late_outage = jenv_ok\<lparr>w_completed := call_down 30\<rparr>"

definition jenv_boom_outage :: job_env where
  "jenv_boom_outage = jenv_boom\<lparr>w_failed := call_down 31\<rparr>"

definition jenv_boom_outage_long :: job_env where
  "jenv_boom_outage_long = jenv_boom_outage\<lparr>w_secondary := call_down 32\<rparr>"

text \<open>Regeneration options that override nothing but carry an empty custom prompt.\<close>

definition options_empty_prompt :: RegenerateOptions where
  "options_empty_prompt = \<lparr>ro_aiProvider = None, ro_customPrompt = Some ''''\<rparr>"

definition dto_missing :: GenerateDesignDto where
  "dto_missing = \<lparr>g_roomId = ''r9'', g_customPrompt = None, g_aiProvider = None\<rparr>"

text \<open>The store once the plants request has been answered, and the task it started.\<close>

definition design1 :: Design where
  "design1 = \<lparr>d_id = ''d1'', d_roomId = ''r1'', d_imageUrl = '''', d_prompt = ''Add plants'',
     d_aiProvider = ''openai'', d_status = PENDING, d_metadata = None,
     d_processingTime = None, d_error = None, d_createdAt = 10, d_updatedAt = 10\<rparr>"

definition store_pending :: store where
  "store_pending = store1\<lparr>designs := [''d1'' \<mapsto> design1]\<rparr>"

definition task1 :: task where
  "task1 = \<lparr>t_designId = ''d1'', t_room = (room1, project1),
     t_customPrompt = Some ''Add plants'', t_aiProvider = ''openai''\<rparr>"

text \<open>The row \<^verbatim>\<open>generateDesign\<close> asks the store to create.\<close>

definition created_row :: "sync_env \<Rightarrow> GenerateDesignDto \<Rightarrow> Design" where
  "created_row env designData =
     \<lparr>d_id = newId env, d_roomId = g_roomId designData, d_imageUrl = '''',
      d_prompt = or_string (g_customPrompt designData) '''',
      d_aiProvider = (case g_aiProvider designData of None \<Rightarrow> ''replicate'' | Some p \<Rightarrow> p),
      d_status = PENDING, d_metadata = None, d_processingTime = None, d_error = None,
      d_createdAt = clock (create_call env), d_updatedAt = clock (create_call env)\<rparr>"

section \<open>Facts about the store operations\<close>

lemma or_string_empty: "or_string a '''' = (case a of None \<Rightarrow> '''' | Some c \<Rightarrow> c)"
  by (simp add: or_string_def split: option.splits)

lemma design_update_commit:
  assumes "fault call = None" "designs s designId = Some d"
  shows "design_update call designId data s =
    (Inr (patched call data d), commit_update call designId data d s)"
  using assms
  by (simp add: design_update_def record_write_def Let_def patched_def commit_update_def)

lemma design_update_fault:
  assumes "fault call = Some m"
  shows "design_update call designId data s = (Inl (JsError m), reject_update designId data s)"
  using assms
  by (simp add: design_update_def record_write_def Let_def reject_update_def)

lemma design_update_absent:
  assumes "fault call = None" "designs s designId = None"
  shows "design_update call designId data s =
    (Inl (JsError ''Record to update not found''), reject_update designId data s)"
  using assms
  by (simp add: design_update_def record_write_def Let_def reject_update_def)

lemma design_update_eq:
  "design_update call designId data s =
     (case fault call of
        Some m \<Rightarrow> (Inl (JsError m), reject_update designId data s)
      | None \<Rightarrow>
          (case designs s designId of
             None \<Rightarrow> (Inl (JsError ''Record to update not found''), reject_update designId data s)
           | Some d \<Rightarrow> (Inr (patched call data d), commit_update call designId data d s)))"
  by (simp add: design_update_def record_write_def Let_def reject_update_def commit_update_def
      patched_def split: option.splits)

lemma generateDesign_commit:
  assumes "rooms s (g_roomId designData) = Some room"
    and "projects s (r_projectId room) = Some project"
    and "p_userId project = userId"
    and "fault (create_call env) = None"
    and "designs s (newId env) = None"
  shows "generateDesign env userId designData s =
    (Inr (formatDesignResponse (created_row env designData) None False),
     s\<lparr>designs := (designs s)(newId env \<mapsto> created_row env designData),
       journal := journal s @ [\<lparr>j_op = CreateOp, j_id = newId env, j_status = Some PENDING,
         j_row = Some (created_row env designData)\<rparr>]\<rparr>,
     Some \<lparr>t_designId = newId env, t_room = (room, project),
       t_customPrompt = g_customPrompt designData,
       t_aiProvider = (case g_aiProvider designData of None \<Rightarrow> ''replicate'' | Some p \<Rightarrow> p)\<rparr>)"
  using assms
  by (simp add: generateDesign_def room_findUnique_def design_create_def record_write_def
      created_row_def Let_def)

lemma generateDesign_Inr_only_if:
  assumes "generateDesign env userId designData s = (Inr r, s', t)"
  shows "\<exists>room project. rooms s (g_roomId designData) = Some room \<and>
     projects s (r_projectId room) = Some project \<and> p_userId project = userId \<and>
     fault (create_call env) = None \<and> designs s (newId env) = None"
  using assms
  by (auto simp add: generateDesign_def room_findUnique_def design_create_def record_write_def
      Let_def split: option.splits if_splits sum.splits prod.splits)

lemma generateDesign_then_task_answer:
  "fst (generateDesign_then_task env jenv userId designData s) =
     fst (generateDesign env userId designData s)"
  by (simp add: generateDesign_then_task_def split: prod.splits option.splits)

lemma store1_room: "rooms store1 ''r1'' = Some room1"
  by (simp add: store1_def)

lemma store1_project: "projects store1 (r_projectId room1) = Some project1"
  by (simp add: store1_def room1_def)

lemma store1_no_design: "designs store1 d = None"
  by (simp add: store1_def)

section \<open>Initiating a generation: refusals and the answer\<close>

text \<open>
  C6. An initiate-generation call for a room that does not exist fails with the not-found
  error, and one for a room whose project belongs to another user fails with the
  access-denied error; in both cases the store after the call is the store before it (no
  design row, no write attempted) and no task is started.
\<close>

theorem generateDesign_refusal_writes_nothing:
  "(rooms s (g_roomId designData) = None \<longrightarrow>
      generateDesign env userId designData s =
        (Inl (AppError ''Room not found'' 404 ''ROOM_NOT_FOUND''), s, None)) \<and>
   (\<forall>room project. rooms s (g_roomId designData) = Some room \<and>
      projects s (r_projectId room) = Some project \<and> p_userId project \<noteq> userId \<longrightarrow>
      generateDesign env userId designData s =
        (Inl (AppError ''Access denied. You can only generate designs for your own rooms.''
           403 ''ACCESS_DENIED''), s, None))"
  by (simp add: generateDesign_def room_findUnique_def Let_def)

theorem generateDesign_refusal_writes_nothing_witness:
  "rooms store1 (g_roomId dto_missing) = None \<and>
   generateDesign env1 ''alice'' dto_missing store1 =
     (Inl (AppError ''Room not found'' 404 ''ROOM_NOT_FOUND''), store1, None) \<and>
   rooms store1 (g_roomId dto1) = Some room1 \<and>
   projects store1 (r_projectId room1) = Some project1 \<and>
   p_userId project1 \<noteq> ''bob'' \<and>
   generateDesign env1 ''bob'' dto1 store1 =
     (Inl (AppError ''Access denied. You can only generate designs for your own rooms.''
        403 ''ACCESS_DENIED''), store1, None)"
proof -
  have a: "rooms store1 (g_roomId dto_missing) = None"
    by (simp add: store1_def dto_missing_def)
  have b: "rooms store1 (g_roomId dto1) = Some room1 \<and>
      projects store1 (r_projectId room1) = Some project1 \<and> p_userId project1 \<noteq> ''bob''"
    by (simp add: store1_room store1_project dto1_def project1_def)
  from generateDesign_refusal_writes_nothing [of store1 dto_missing env1 "''alice''"] a
  have c: "generateDesign env1 ''alice'' dto_missing store1 =
     (Inl (AppError ''Room not found'' 404 ''ROOM_NOT_FOUND''), store1, None)"
    by blast
  from generateDesign_refusal_writes_nothing [of store1 dto1 env1 "''bob''"] b
  have d: "generateDesign env1 ''bob'' dto1 store1 =
     (Inl (AppError ''Access denied. You can only generate designs for your own rooms.''
        403 ''ACCESS_DENIED''), store1, None)"
    by blast
  from a b c d show ?thesis by blast
qed

text \<open>
  C2. An initiate-generation call by the owner of the room, whose row the store creates,
  does three things and no more: it creates one design row in status \<open>PENDING\<close> under
  the generated id (every other table, and every other row, is as before, and the only
  write attempted is that create); it starts the detached task on that row's id with the
  room snapshot, the custom prompt and the provider; and it answers with that row,
  formatted. The answer is the same whatever the detached task meets afterwards: whatever
  the provider adapter returns or throws, and whatever becomes of the task's writes.
\<close>

theorem generateDesign_creates_pending_row_and_task:
  assumes "rooms s (g_roomId designData) = Some room"
    and "projects s (r_projectId room) = Some project"
    and "p_userId project = userId"
    and "fault (create_call env) = None"
    and "designs s (newId env) = None"
  shows "\<exists>r s' row. generateDesign env userId designData s =
       (Inr r, s',
        Some \<lparr>t_designId = newId env, t_room = (room, project),
          t_customPrompt = g_customPrompt designData,
          t_aiProvider = (case g_aiProvider designData of None \<Rightarrow> ''replicate'' | Some p \<Rightarrow> p)\<rparr>) \<and>
     r = formatDesignResponse row None False \<and>
     f_status r = PENDING \<and> f_id r = newId env \<and> f_roomId r = g_roomId designData \<and>
     designs s' = (designs s)(newId env \<mapsto> row) \<and>
     rooms s' = rooms s \<and> projects s' = projects s \<and> uploads s' = uploads s \<and>
     journal s' = journal s @ [\<lparr>j_op = CreateOp, j_id = newId env, j_status = Some PENDING,
       j_row = Some row\<rparr>] \<and>
     d_id row = newId env \<and> d_roomId row = g_roomId designData \<and> d_status row = PENDING \<and>
     d_imageUrl row = '''' \<and> d_metadata row = None \<and> d_processingTime row = None \<and>
     d_error row = None \<and>
     (\<forall>jenv. fst (generateDesign_then_task env jenv userId designData s) = Inr r)"
  using generateDesign_commit[OF assms]
  by (simp add: generateDesign_then_task_answer formatDesignResponse_def created_row_def)

theorem generateDesign_creates_pending_row_and_task_witness:
  "rooms store1 (g_roomId dto1) = Some room1 \<and>
   projects store1 (r_projectId room1) = Some project1 \<and>
   p_userId project1 = ''alice'' \<and>
   fault (create_call env1) = None \<and>
   designs store1 (newId env1) = None \<and>
   \<not> isl (fst (generateDesign env1 ''alice'' dto1 store1)) \<and>
   f_status (projr (fst (generateDesign env1 ''alice'' dto1 store1))) = PENDING \<and>
   f_id (projr (fst (generateDesign env1 ''alice'' dto1 store1))) = ''d1'' \<and>
   map_option d_status (designs (fst (snd (generateDesign env1 ''alice'' dto1 store1))) ''d1'') =
     Some PENDING \<and>
   map_option t_designId (snd (snd (generateDesign env1 ''alice'' dto1 store1))) = Some ''d1'' \<and>
   length (journal (fst (snd (generateDesign env1 ''alice'' dto1 store1)))) = 1 \<and>
   fst (generateDesign_then_task env1 jenv_ok ''alice'' dto1 store1) =
     fst (generateDesign env1 ''alice'' dto1 store1) \<and>
   fst (generateDesign_then_task env1 jenv_boom ''alice'' dto1 store1) =
     fst (generateDesign env1 ''alice'' dto1 store1)"
proof -
  have h: "rooms store1 (g_roomId dto1) = Some room1"
    "projects store1 (r_projectId room1) = Some project1"
    "p_userId project1 = ''alice''"
    "fault (create_call env1) = None"
    "designs store1 (newId env1) = None"
    by (simp_all add: store1_room store1_project store1_no_design dto1_def project1_def
        env1_def call_ok_def)
  from generateDesign_creates_pending_row_and_task [OF h]
  obtain r s' row tk where r: "generateDesign env1 ''alice'' dto1 store1 = (Inr r, s', Some tk)"
    "t_designId tk = newId env1"
    "f_status r = PENDING" "f_id r = newId env1"
    "designs s' = (designs store1)(newId env1 \<mapsto> row)"
    "journal s' = journal store1 @ [\<lparr>j_op = CreateOp, j_id = newId env1,
       j_status = Some PENDING, j_row = Some row\<rparr>]"
    "d_status row = PENDING"
    "\<forall>jenv. fst (generateDesign_then_task env1 jenv ''alice'' dto1 store1) = Inr r"
    by fastforce
  have v: "newId env1 = ''d1''" "journal store1 = []"
    by (simp_all add: env1_def store1_def)
  from r show ?thesis
    unfolding v by (simp add: h [unfolded v] store1_no_design)
qed

text \<open>
  C9, as stated, fails: a call with the custom prompt \<open>''Add plants''\<close> is answered with
  that prompt on the design, not with the empty string.
\<close>

theorem generateDesign_keeps_custom_prompt_counterexample:
  "\<not> isl (fst (generateDesign env1 ''alice'' dto_plants store1)) \<and>
   f_prompt (projr (fst (generateDesign env1 ''alice'' dto_plants store1))) = ''Add plants'' \<and>
   map_option d_prompt (designs (fst (snd (generateDesign env1 ''alice'' dto_plants store1))) ''d1'') =
     Some ''Add plants''"
  by (simp add: generateDesign_def room_findUnique_def design_create_def record_write_def
      Let_def env1_def dto_plants_def store1_def room1_def project1_def call_ok_def
      formatDesignResponse_def or_string_def)

text \<open>
  C9, amended. For every successful initiate-generation call, the design as answered and
  the row as created have an empty image URL and status \<open>PENDING\<close>; their prompt is the
  caller's custom prompt when one was supplied (\<^verbatim>\<open>customPrompt || ""\<close>) and the empty
  string otherwise.
\<close>

theorem generateDesign_created_row_fields:
  assumes "generateDesign env userId designData s = (Inr r, s', t)"
  shows "f_imageUrl r = '''' \<and> f_status r = PENDING \<and>
    f_prompt r = (case g_customPrompt designData of None \<Rightarrow> '''' | Some c \<Rightarrow> c) \<and>
    (\<exists>d. designs s' (f_id r) = Some d \<and> d_imageUrl d = '''' \<and> d_status d = PENDING \<and>
       d_prompt d = (case g_customPrompt designData of None \<Rightarrow> '''' | Some c \<Rightarrow> c))"
proof -
  from generateDesign_Inr_only_if[OF assms] obtain room project where
    h: "rooms s (g_roomId designData) = Some room" "projects s (r_projectId room) = Some project"
      "p_userId project = userId" "fault (create_call env) = None" "designs s (newId env) = None"
    by blast
  from generateDesign_commit[OF h] assms
  have r: "r = formatDesignResponse (created_row env designData) None False"
    and s': "s' = s\<lparr>designs := (designs s)(newId env \<mapsto> created_row env designData),
       journal := journal s @ [\<lparr>j_op = CreateOp, j_id = newId env, j_status = Some PENDING,
         j_row = Some (created_row env designData)\<rparr>]\<rparr>"
    by simp_all
  show ?thesis
    by (simp add: r s' formatDesignResponse_def created_row_def or_string_empty)
qed

theorem generateDesign_created_row_fields_witness:
  "generateDesign env1 ''alice'' dto_plants store1 =
     (fst (generateDesign env1 ''alice'' dto_plants store1),
      fst (snd (generateDesign env1 ''alice'' dto_plants store1)),
      snd (snd (generateDesign env1 ''alice'' dto_plants store1))) \<and>
   \<not> isl (fst (generateDesign env1 ''alice'' dto_plants store1)) \<and>
   f_imageUrl (projr (fst (generateDesign env1 ''alice'' dto_plants store1))) = '''' \<and>
   f_status (projr (fst (generateDesign env1 ''alice'' dto_plants store1))) = PENDING \<and>
   f_prompt (projr (fst (generateDesign env1 ''alice'' dto_plants store1))) = ''Add plants''"
proof -
  have h: "rooms store1 (g_roomId dto_plants) = Some room1"
    "projects store1 (r_projectId room1) = Some project1"
    "p_userId project1 = ''alice''"
    "fault (create_call env1) = None"
    "designs store1 (newId env1) = None"
    by (simp_all add: store1_room store1_project store1_no_design dto_plants_def project1_def
        env1_def call_ok_def)
  note c = generateDesign_commit [OF h]
  from generateDesign_created_row_fields [OF c]
  have "f_imageUrl (formatDesignResponse (created_row env1 dto_plants) None False) = '''' \<and>
    f_status (formatDesignResponse (created_row env1 dto_plants) None False) = PENDING \<and>
    f_prompt (formatDesignResponse (created_row env1 dto_plants) None False) =
      (case g_customPrompt dto_plants of None \<Rightarrow> '''' | Some c \<Rightarrow> c)"
    by blast
  moreover have "(case g_customPrompt dto_plants of None \<Rightarrow> [] | Some c \<Rightarrow> c) = ''Add plants''"
    by (simp add: dto_plants_def)
  ultimately show ?thesis
    by (simp add: c)
qed

section \<open>Regeneration\<close>

lemma regenerate_dto_empty_prompt:
  "regenerate_dto originalDesign (Some (opt\<lparr>ro_customPrompt := Some []\<rparr>)) =
     regenerate_dto originalDesign (Some (opt\<lparr>ro_customPrompt := None\<rparr>))"
  by (simp add: regenerate_dto_def or_string_def)

text \<open>
  C10. \<^verbatim>\<open>regenerateDesign\<close> treats an empty-string prompt override as absent. The call
  with \<^verbatim>\<open>customPrompt: ""\<close> has the same outcome (answer, store and started task) as the
  call without a custom prompt. For an existing design and its owner, that call is the
  initiate-generation call on the original's room with the original design's stored
  prompt as custom prompt; it is answered with a design as soon as the store creates the
  row, and the design it answers with, the row created and the task started all carry
  the original's stored prompt. Likewise a call without a provider override is the
  initiate-generation call with the original design's provider, and answer, row and task
  carry that provider; a call without options hands on both.
\<close>

theorem regenerateDesign_empty_override_is_absent:
  "regenerateDesign env designId userId (Some (opt\<lparr>ro_customPrompt := Some []\<rparr>)) s =
     regenerateDesign env designId userId (Some (opt\<lparr>ro_customPrompt := None\<rparr>)) s \<and>
   (designs s designId = Some originalDesign \<and>
    rooms s (d_roomId originalDesign) = Some room \<and>
    projects s (r_projectId room) = Some project \<and> p_userId project = userId \<longrightarrow>
      regenerateDesign env designId userId (Some (opt\<lparr>ro_customPrompt := Some []\<rparr>)) s =
        generateDesign env userId
          \<lparr>g_roomId = d_roomId originalDesign,
           g_customPrompt = Some (d_prompt originalDesign),
           g_aiProvider = Some (or_string (ro_aiProvider opt) (d_aiProvider originalDesign))\<rparr> s \<and>
      regenerateDesign env designId userId (Some (opt\<lparr>ro_aiProvider := None\<rparr>)) s =
        generateDesign env userId
          \<lparr>g_roomId = d_roomId originalDesign,
           g_customPrompt = Some (or_string (ro_customPrompt opt) (d_prompt originalDesign)),
           g_aiProvider = Some (d_aiProvider originalDesign)\<rparr> s \<and>
      regenerateDesign env designId userId None s =
        generateDesign env userId
          \<lparr>g_roomId = d_roomId originalDesign,
           g_customPrompt = Some (d_prompt originalDesign),
           g_aiProvider = Some (d_aiProvider originalDesign)\<rparr> s \<and>
      (fault (create_call env) = None \<and> designs s (newId env) = None \<longrightarrow>
         \<not> isl (fst (regenerateDesign env designId userId
                  (Some (opt\<lparr>ro_customPrompt := Some []\<rparr>)) s))) \<and>
      (\<forall>r s' t. regenerateDesign env designId userId
                  (Some (opt\<lparr>ro_customPrompt := Some []\<rparr>)) s = (Inr r, s', t) \<longrightarrow>
         f_prompt r = d_prompt originalDesign \<and>
         (\<exists>task. t = Some task \<and> t_designId task = f_id r \<and>
            t_customPrompt task = Some (d_prompt originalDesign)) \<and>
         (\<exists>d. designs s' (f_id r) = Some d \<and> d_prompt d = d_prompt originalDesign)) \<and>
      (\<forall>r s' t. regenerateDesign env designId userId
                  (Some (opt\<lparr>ro_aiProvider := None\<rparr>)) s = (Inr r, s', t) \<longrightarrow>
         f_aiProvider r = d_aiProvider originalDesign \<and>
         (\<exists>task. t = Some task \<and> t_designId task = f_id r \<and>
            t_aiProvider task = d_aiProvider originalDesign) \<and>
         (\<exists>d. designs s' (f_id r) = Some d \<and> d_aiProvider d = d_aiProvider originalDesign)))"
proof (rule conjI)
  show "regenerateDesign env designId userId (Some (opt\<lparr>ro_customPrompt := Some []\<rparr>)) s =
     regenerateDesign env designId userId (Some (opt\<lparr>ro_customPrompt := None\<rparr>)) s"
    unfolding regenerateDesign_def regenerate_dto_empty_prompt ..
next
  show "designs s designId = Some originalDesign \<and>
    rooms s (d_roomId originalDesign) = Some room \<and>
    projects s (r_projectId room) = Some project \<and> p_userId project = userId \<longrightarrow>
      regenerateDesign env designId userId (Some (opt\<lparr>ro_customPrompt := Some []\<rparr>)) s =
        generateDesign env userId
          \<lparr>g_roomId = d_roomId originalDesign,
           g_customPrompt = Some (d_prompt originalDesign),
           g_aiProvider = Some (or_string (ro_aiProvider opt) (d_aiProvider originalDesign))\<rparr> s \<and>
      regenerateDesign env designId userId (Some (opt\<lparr>ro_aiProvider := None\<rparr>)) s =
        generateDesign env userId
          \<lparr>g_roomId = d_roomId originalDesign,
           g_customPrompt = Some (or_string (ro_customPrompt opt) (d_prompt originalDesign)),
           g_aiProvider = Some (d_aiProvider originalDesign)\<rparr> s \<and>
      regenerateDesign env designId userId None s =
        generateDesign env userId
          \<lparr>g_roomId = d_roomId originalDesign,
           g_customPrompt = Some (d_prompt originalDesign),
           g_aiProvider = Some (d_aiProvider originalDesign)\<rparr> s \<and>
      (fault (create_call env) = None \<and> designs s (newId env) = None \<longrightarrow>
         \<not> isl (fst (regenerateDesign env designId userId
                  (Some (opt\<lparr>ro_customPrompt := Some []\<rparr>)) s))) \<and>
      (\<forall>r s' t. regenerateDesign env designId userId
                  (Some (opt\<lparr>ro_customPrompt := Some []\<rparr>)) s = (Inr r, s', t) \<longrightarrow>
         f_prompt r = d_prompt originalDesign \<and>
         (\<exists>task. t = Some task \<and> t_designId task = f_id r \<and>
            t_customPrompt task = Some (d_prompt originalDesign)) \<and>
         (\<exists>d. designs s' (f_id r) = Some d \<and> d_prompt d = d_prompt originalDesign)) \<and>
      (\<forall>r s' t. regenerateDesign env designId userId
                  (Some (opt\<lparr>ro_aiProvider := None\<rparr>)) s = (Inr r, s', t) \<longrightarrow>
         f_aiProvider r = d_aiProvider originalDesign \<and>
         (\<exists>task. t = Some task \<and> t_designId task = f_id r \<and>
            t_aiProvider task = d_aiProvider originalDesign) \<and>
         (\<exists>d. designs s' (f_id r) = Some d \<and> d_aiProvider d = d_aiProvider originalDesign))"
  proof
    assume a: "designs s designId = Some originalDesign \<and>
      rooms s (d_roomId originalDesign) = Some room \<and>
      projects s (r_projectId room) = Some project \<and> p_userId project = userId"
    then have h: "rooms s (d_roomId originalDesign) = Some room"
      "projects s (r_projectId room) = Some project" "p_userId project = userId"
      by simp_all
    from a have f: "design_findUnique s designId = Inr (Some (originalDesign, room, project))"
      by (simp add: design_findUnique_def room_findUnique_def)
    have re: "\<And>options. regenerateDesign env designId userId options s =
       generateDesign env userId (regenerate_dto originalDesign options) s"
      by (simp add: regenerateDesign_def f h(3))
    let ?p = "\<lparr>g_roomId = d_roomId originalDesign,
           g_customPrompt = Some (d_prompt originalDesign),
           g_aiProvider = Some (or_string (ro_aiProvider opt) (d_aiProvider originalDesign))\<rparr>"
    let ?q = "\<lparr>g_roomId = d_roomId originalDesign,
           g_customPrompt = Some (or_string (ro_customPrompt opt) (d_prompt originalDesign)),
           g_aiProvider = Some (d_aiProvider originalDesign)\<rparr>"
    have d1: "regenerate_dto originalDesign (Some (opt\<lparr>ro_customPrompt := Some []\<rparr>)) = ?p"
      and d2: "regenerate_dto originalDesign (Some (opt\<lparr>ro_aiProvider := None\<rparr>)) = ?q"
      and d3: "regenerate_dto originalDesign None =
        \<lparr>g_roomId = d_roomId originalDesign,
           g_customPrompt = Some (d_prompt originalDesign),
           g_aiProvider = Some (d_aiProvider originalDesign)\<rparr>"
      by (simp_all add: regenerate_dto_def or_string_def)
    have hp: "rooms s (g_roomId ?p) = Some room" and hq: "rooms s (g_roomId ?q) = Some room"
      using h(1) by simp_all
    have live: "fault (create_call env) = None \<and> designs s (newId env) = None \<longrightarrow>
         \<not> isl (fst (generateDesign env userId ?p s))"
    proof
      assume "fault (create_call env) = None \<and> designs s (newId env) = None"
      then have c: "fault (create_call env) = None" "designs s (newId env) = None"
        by simp_all
      from generateDesign_commit[OF hp h(2,3) c] show "\<not> isl (fst (generateDesign env userId ?p s))"
        by simp
    qed
    have okp: "\<forall>r s' t. generateDesign env userId ?p s = (Inr r, s', t) \<longrightarrow>
         f_prompt r = d_prompt originalDesign \<and>
         (\<exists>task. t = Some task \<and> t_designId task = f_id r \<and>
            t_customPrompt task = Some (d_prompt originalDesign)) \<and>
         (\<exists>d. designs s' (f_id r) = Some d \<and> d_prompt d = d_prompt originalDesign)"
    proof (intro allI impI)
      fix r s' t
      assume ok: "generateDesign env userId ?p s = (Inr r, s', t)"
      from generateDesign_Inr_only_if[OF ok]
      have c: "fault (create_call env) = None" "designs s (newId env) = None"
        by auto
      from generateDesign_commit[OF hp h(2,3) c] ok
      show "f_prompt r = d_prompt originalDesign \<and>
         (\<exists>task. t = Some task \<and> t_designId task = f_id r \<and>
            t_customPrompt task = Some (d_prompt originalDesign)) \<and>
         (\<exists>d. designs s' (f_id r) = Some d \<and> d_prompt d = d_prompt originalDesign)"
        by (auto simp add: formatDesignResponse_def created_row_def or_string_empty)
    qed
    have okq: "\<forall>r s' t. generateDesign env userId ?q s = (Inr r, s', t) \<longrightarrow>
         f_aiProvider r = d_aiProvider originalDesign \<and>
         (\<exists>task. t = Some task \<and> t_designId task = f_id r \<and>
            t_aiProvider task = d_aiProvider originalDesign) \<and>
         (\<exists>d. designs s' (f_id r) = Some d \<and> d_aiProvider d = d_aiProvider originalDesign)"
    proof (intro allI impI)
      fix r s' t
      assume ok: "generateDesign env userId ?q s = (Inr r, s', t)"
      from generateDesign_Inr_only_if[OF ok]
      have c: "fault (create_call env) = None" "designs s (newId env) = None"
        by auto
      from generateDesign_commit[OF hq h(2,3) c] ok
      show "f_aiProvider r = d_aiProvider originalDesign \<and>
         (\<exists>task. t = Some task \<and> t_designId task = f_id r \<and>
            t_aiProvider task = d_aiProvider originalDesign) \<and>
         (\<exists>d. designs s' (f_id r) = Some d \<and> d_aiProvider d = d_aiProvider originalDesign)"
        by (auto simp add: formatDesignResponse_def created_row_def)
    qed
    from live okp okq show "regenerateDesign env designId userId (Some (opt\<lparr>ro_customPrompt := Some []\<rparr>)) s =
        generateDesign env userId ?p s \<and>
      regenerateDesign env designId userId (Some (opt\<lparr>ro_aiProvider := None\<rparr>)) s =
        generateDesign env userId ?q s \<and>
      regenerateDesign env designId userId None s =
        generateDesign env userId
          \<lparr>g_roomId = d_roomId originalDesign,
           g_customPrompt = Some (d_prompt originalDesign),
           g_aiProvider = Some (d_aiProvider originalDesign)\<rparr> s \<and>
      (fault (create_call env) = None \<and> designs s (newId env) = None \<longrightarrow>
         \<not> isl (fst (regenerateDesign env designId userId
                  (Some (opt\<lparr>ro_customPrompt := Some []\<rparr>)) s))) \<and>
      (\<forall>r s' t. regenerateDesign env designId userId
                  (Some (opt\<lparr>ro_customPrompt := Some []\<rparr>)) s = (Inr r, s', t) \<longrightarrow>
         f_prompt r = d_prompt originalDesign \<and>
         (\<exists>task. t = Some task \<and> t_designId task = f_id r \<and>
            t_customPrompt task = Some (d_prompt originalDesign)) \<and>
         (\<exists>d. designs s' (f_id r) = Some d \<and> d_prompt d = d_prompt originalDesign)) \<and>
      (\<forall>r s' t. regenerateDesign env designId userId
                  (Some (opt\<lparr>ro_aiProvider := None\<rparr>)) s = (Inr r, s', t) \<longrightarrow>
         f_aiProvider r = d_aiProvider originalDesign \<and>
         (\<exists>task. t = Some task \<and> t_designId task = f_id r \<and>
            t_aiProvider task = d_aiProvider originalDesign) \<and>
         (\<exists>d. designs s' (f_id r) = Some d \<and> d_aiProvider d = d_aiProvider originalDesign))"
      unfolding re d1 d2 d3 by blast
  qed
qed

lemma options_empty_prompt_updates:
  "options_empty_prompt\<lparr>ro_customPrompt := Some []\<rparr> = options_empty_prompt"
  "options_empty_prompt\<lparr>ro_aiProvider := None\<rparr> = options_empty_prompt"
  by (simp_all add: options_empty_prompt_def)

theorem regenerateDesign_empty_override_is_absent_witness:
  "designs store_pending ''d1'' = Some design1 \<and>
   rooms store_pending (d_roomId design1) = Some room1 \<and>
   projects store_pending (r_projectId room1) = Some project1 \<and>
   p_userId project1 = ''alice'' \<and>
   fault (create_call env2) = None \<and>
   designs store_pending (newId env2) = None \<and>
   regenerateDesign env2 ''d1'' ''alice'' (Some options_empty_prompt) store_pending =
     regenerateDesign env2 ''d1'' ''alice'' None store_pending \<and>
   \<not> isl (fst (regenerateDesign env2 ''d1'' ''alice'' (Some options_empty_prompt)
     store_pending)) \<and>
   f_prompt (projr (fst (regenerateDesign env2 ''d1'' ''alice'' (Some options_empty_prompt)
     store_pending))) = ''Add plants'' \<and>
   f_aiProvider (projr (fst (regenerateDesign env2 ''d1'' ''alice'' (Some options_empty_prompt)
     store_pending))) = ''openai'' \<and>
   map_option t_customPrompt (snd (snd (regenerateDesign env2 ''d1'' ''alice''
     (Some options_empty_prompt) store_pending))) = Some (Some ''Add plants'') \<and>
   map_option t_aiProvider (snd (snd (regenerateDesign env2 ''d1'' ''alice''
     (Some options_empty_prompt) store_pending))) = Some ''openai''"
proof -
  let ?X = "regenerateDesign env2 ''d1'' ''alice'' (Some options_empty_prompt) store_pending"
  have h: "designs store_pending ''d1'' = Some design1 \<and>
    rooms store_pending (d_roomId design1) = Some room1 \<and>
    projects store_pending (r_projectId room1) = Some project1 \<and>
    p_userId project1 = ''alice''"
    by (simp add: store_pending_def store1_def design1_def room1_def project1_def)
  have c: "fault (create_call env2) = None \<and> designs store_pending (newId env2) = None"
    by (simp add: store_pending_def env2_def call_ok_def)
  note th = regenerateDesign_empty_override_is_absent
    [of env2 "''d1''" "''alice''" options_empty_prompt store_pending design1 room1 project1,
     unfolded options_empty_prompt_updates]
  from th h have e1: "?X = generateDesign env2 ''alice''
      \<lparr>g_roomId = d_roomId design1, g_customPrompt = Some (d_prompt design1),
       g_aiProvider = Some (or_string (ro_aiProvider options_empty_prompt)
         (d_aiProvider design1))\<rparr> store_pending"
    and e3: "regenerateDesign env2 ''d1'' ''alice'' None store_pending =
      generateDesign env2 ''alice''
      \<lparr>g_roomId = d_roomId design1, g_customPrompt = Some (d_prompt design1),
       g_aiProvider = Some (d_aiProvider design1)\<rparr> store_pending"
    by blast+
  have "or_string (ro_aiProvider options_empty_prompt) (d_aiProvider design1) =
      d_aiProvider design1"
    by (simp add: options_empty_prompt_def or_string_def)
  with e1 e3 have same: "?X = regenerateDesign env2 ''d1'' ''alice'' None store_pending"
    by simp
  from th h c have ok: "\<not> isl (fst ?X)"
    by blast
  then have X: "?X = (Inr (projr (fst ?X)), fst (snd ?X), snd (snd ?X))"
    by (cases ?X, cases "fst ?X") auto
  from th h X have "f_prompt (projr (fst ?X)) = d_prompt design1 \<and>
      (\<exists>task. snd (snd ?X) = Some task \<and> t_customPrompt task = Some (d_prompt design1)) \<and>
      f_aiProvider (projr (fst ?X)) = d_aiProvider design1 \<and>
      (\<exists>task. snd (snd ?X) = Some task \<and> t_aiProvider task = d_aiProvider design1)"
    by blast
  moreover have "d_prompt design1 = ''Add plants''" "d_aiProvider design1 = ''openai''"
    by (simp_all add: design1_def)
  ultimately show ?thesis
    using h c ok same by auto
qed

section \<open>The background task, write by write\<close>

lemma commit_update_sel:
  "designs (commit_update call designId data d s) =
     (designs s)(designId \<mapsto> patched call data d)"
  "journal (commit_update call designId data d s) =
     journal s @ [\<lparr>j_op = UpdateOp, j_id = designId, j_status = set_status data,
         j_row = Some (patched call data d)\<rparr>]"
  "rooms (commit_update call designId data d s) = rooms s"
  "projects (commit_update call designId data d s) = projects s"
  "uploads (commit_update call designId data d s) = uploads s"
  by (simp_all add: commit_update_def)

lemma reject_update_sel:
  "designs (reject_update designId data s) = designs s"
  "journal (reject_update designId data s) =
     journal s @ [\<lparr>j_op = UpdateOp, j_id = designId, j_status = set_status data, j_row = None\<rparr>]"
  "rooms (reject_update designId data s) = rooms s"
  "projects (reject_update designId data s) = projects s"
  "uploads (reject_update designId data s) = uploads s"
  by (simp_all add: reject_update_def)

lemma patch_status:
  "set_status processing_patch = Some PROCESSING"
  "set_status (failed_patch error pt) = Some FAILED"
  "set_status (secondary_patch error) = Some FAILED"
  "set_status (completed_patch aiResult pt) = Some COMPLETED"
  by (simp_all add: processing_patch_def failed_patch_def secondary_patch_def
      completed_patch_def no_patch_def)

lemma patched_status:
  "d_status (patched call data d) = (case set_status data of None \<Rightarrow> d_status d | Some v \<Rightarrow> v)"
  by (simp add: patched_def apply_patch_def)

lemma catch_commit:
  assumes "fault (w_failed env) = None" "designs s designId = Some d"
  shows "processDesignGeneration_catch env designId startTime error s =
    (Inr (), commit_update (w_failed env) designId
       (failed_patch error (now_failure env - startTime)) d s)"
  by (simp add: processDesignGeneration_catch_def Let_def design_update_commit[OF assms])

lemma catch_fault:
  assumes "fault (w_failed env) = Some m"
  shows "processDesignGeneration_catch env designId startTime error s =
    (Inl (JsError m), reject_update designId
       (failed_patch error (now_failure env - startTime)) s)"
  by (simp add: processDesignGeneration_catch_def Let_def design_update_fault[OF assms])

lemma process_first_write_fault:
  assumes "fault (w_processing env) = Some m"
  shows "processDesignGeneration env designId room customPrompt aiProvider s =
    processDesignGeneration_catch env designId (now_start env) (JsError m)
      (reject_update designId processing_patch s)"
  by (simp add: processDesignGeneration_def Let_def design_update_fault[OF assms])

lemma process_provider_failure:
  assumes "fault (w_processing env) = None" "designs s designId = Some d"
    and "aiService_generateDesign env (promptData_of room customPrompt)
           (options_of room aiProvider) = Inl error"
  shows "processDesignGeneration env designId room customPrompt aiProvider s =
    processDesignGeneration_catch env designId (now_start env) error
      (commit_update (w_processing env) designId processing_patch d s)"
  by (simp add: processDesignGeneration_def Let_def design_update_commit[OF assms(1,2)] assms(3))

lemma process_success:
  assumes "fault (w_processing env) = None" "designs s designId = Some d"
    and "aiService_generateDesign env (promptData_of room customPrompt)
           (options_of room aiProvider) = Inr aiResult"
    and "fault (w_completed env) = None"
  shows "processDesignGeneration env designId room customPrompt aiProvider s =
    (Inr (), commit_update (w_completed env) designId
       (completed_patch aiResult (now_success env - now_start env))
       (patched (w_processing env) processing_patch d)
       (commit_update (w_processing env) designId processing_patch d s))"
proof -
  have "designs (commit_update (w_processing env) designId processing_patch d s) designId =
      Some (patched (w_processing env) processing_patch d)"
    by (simp add: commit_update_sel)
  from design_update_commit[OF assms(4) this] show ?thesis
    by (simp add: processDesignGeneration_def Let_def design_update_commit[OF assms(1,2)] assms(3))
qed

lemma process_last_write_fault:
  assumes "fault (w_processing env) = None" "designs s designId = Some d"
    and "aiService_generateDesign env (promptData_of room customPrompt)
           (options_of room aiProvider) = Inr aiResult"
    and "fault (w_completed env) = Some m"
  shows "processDesignGeneration env designId room customPrompt aiProvider s =
    processDesignGeneration_catch env designId (now_start env) (JsError m)
      (reject_update designId (completed_patch aiResult (now_success env - now_start env))
         (commit_update (w_processing env) designId processing_patch d s))"
  by (simp add: processDesignGeneration_def Let_def design_update_commit[OF assms(1,2)] assms(3)
      design_update_fault[OF assms(4)])

lemma detached_resolved:
  assumes "processDesignGeneration env (t_designId t) (t_room t) (t_customPrompt t)
             (t_aiProvider t) s = (Inr u, s1)"
  shows "detached env t s = (Inr (), s1)"
  by (simp add: detached_def assms)

lemma detached_secondary_commit:
  assumes "processDesignGeneration env (t_designId t) (t_room t) (t_customPrompt t)
             (t_aiProvider t) s = (Inl error, s1)"
    and "fault (w_secondary env) = None" "designs s1 (t_designId t) = Some d"
  shows "detached env t s =
    (Inr (), commit_update (w_secondary env) (t_designId t) (secondary_patch error) d s1)"
  by (simp add: detached_def assms(1) design_update_commit[OF assms(2,3)])

lemma detached_secondary_reject:
  assumes "processDesignGeneration env (t_designId t) (t_room t) (t_customPrompt t)
             (t_aiProvider t) s = (Inl error, s1)"
    and "fault (w_secondary env) \<noteq> None \<or> designs s1 (t_designId t) = None"
  shows "detached env t s = (Inr (), reject_update (t_designId t) (secondary_patch error) s1)"
proof (cases "fault (w_secondary env)")
  case None
  with assms(2) have "designs s1 (t_designId t) = None" by simp
  from design_update_absent[OF None this] show ?thesis
    by (simp add: detached_def assms(1))
next
  case (Some m)
  from design_update_fault[OF Some] show ?thesis
    by (simp add: detached_def assms(1))
qed

lemma detached_never_rejects: "fst (detached env t s) = Inr ()"
  by (simp add: detached_def split: prod.splits sum.splits)

lemma patched_completed:
  "patched call (completed_patch aiResult pt) d =
     d\<lparr>d_imageUrl := (case imageUrls aiResult of [] \<Rightarrow> d_imageUrl d | u # us \<Rightarrow> u),
       d_prompt := prompt aiResult, d_status := COMPLETED, d_processingTime := Some pt,
       d_metadata := Some (AList.update ''allImageUrls'' (JArr (map JStr (imageUrls aiResult)))
                       (metadata aiResult)),
       d_updatedAt := clock call\<rparr>"
  by (simp add: patched_def completed_patch_def apply_patch_def no_patch_def split: list.splits)

lemma patched_failed:
  "patched call (failed_patch error pt) d =
     d\<lparr>d_status := FAILED, d_processingTime := Some pt,
       d_error := Some (case error of JsError m \<Rightarrow> m | JsNonError \<Rightarrow> ''Unknown error''),
       d_updatedAt := clock call\<rparr>"
  by (simp add: patched_def failed_patch_def apply_patch_def no_patch_def)

lemma patched_secondary:
  "patched call (secondary_patch error) d =
     d\<lparr>d_status := FAILED,
       d_error := Some (or_string (message_of error) ''Design generation failed''),
       d_updatedAt := clock call\<rparr>"
  by (simp add: patched_def secondary_patch_def apply_patch_def no_patch_def)

lemma patched_processing:
  "patched call processing_patch d = d\<lparr>d_status := PROCESSING, d_updatedAt := clock call\<rparr>"
  by (simp add: patched_def processing_patch_def apply_patch_def no_patch_def)

section \<open>The outcomes of the background task\<close>

text \<open>
  C3, as stated, fails: in a run where the provider call is made and succeeds with two
  image URLs, but the store rejects the update that would record them, the \<^verbatim>\<open>catch\<close>
  block takes over and the row ends in status \<open>FAILED\<close> with an empty image URL.
\<close>

theorem provider_success_write_rejected_counterexample:
  "designs store_pending (t_designId task1) = Some design1 \<and>
   fault (w_processing jenv_late_outage) = None \<and>
   aiService_generateDesign jenv_late_outage
     (promptData_of (t_room task1) (t_customPrompt task1))
     (options_of (t_room task1) (t_aiProvider task1)) = Inr result1 \<and>
   imageUrls result1 = [''u1'', ''u2''] \<and>
   map_option d_status (designs (snd (detached jenv_late_outage task1 store_pending)) ''d1'') =
     Some FAILED \<and>
   map_option d_imageUrl (designs (snd (detached jenv_late_outage task1 store_pending)) ''d1'') =
     Some '''' \<and>
   map_option d_error (designs (snd (detached jenv_late_outage task1 store_pending)) ''d1'') =
     Some (Some ''Connection lost'')"
  by (simp add: detached_def processDesignGeneration_def processDesignGeneration_catch_def
      design_update_eq commit_update_sel reject_update_sel patched_failed patched_processing
      Let_def store_pending_def task1_def design1_def jenv_late_outage_def jenv_ok_def
      call_ok_def call_down_def provider_ok_def result1_def)

text \<open>
  C3, amended. A run of the background task in which the provider call is made (the row
  exists and the update to \<open>PROCESSING\<close> is committed) and succeeds with a non-empty
  list of image URLs, and in which the store commits the update that records the result,
  ends with the row in status \<open>COMPLETED\<close>, its image URL the first URL returned, its
  prompt the prompt the provider resolved (whatever the row held before), its metadata the
  provider metadata with the key \<open>allImageUrls\<close> holding the whole list, and its
  processing time the reading of the clock after the provider's answer minus the reading
  taken before the transition to \<open>PROCESSING\<close>.
\<close>

theorem detached_success_completes_row:
  assumes "designs s (t_designId t) = Some d"
    and "fault (w_processing env) = None"
    and "fault (w_completed env) = None"
    and "aiService_generateDesign env (promptData_of (t_room t) (t_customPrompt t))
           (options_of (t_room t) (t_aiProvider t)) = Inr aiResult"
    and "imageUrls aiResult = u # us"
  shows "\<exists>s' d' md. detached env t s = (Inr (), s') \<and>
     designs s' (t_designId t) = Some d' \<and>
     d_status d' = COMPLETED \<and> d_imageUrl d' = u \<and> d_prompt d' = prompt aiResult \<and>
     d_metadata d' = Some md \<and>
     md = AList.update ''allImageUrls'' (JArr (map JStr (imageUrls aiResult))) (metadata aiResult) \<and>
     map_of md = (map_of (metadata aiResult))(''allImageUrls'' \<mapsto> JArr (map JStr (imageUrls aiResult))) \<and>
     d_processingTime d' = Some (now_success env - now_start env)"
proof -
  note p = process_success[OF assms(2) assms(1) assms(4) assms(3)]
  show ?thesis
    by (simp add: detached_resolved[OF p] commit_update_sel patched_completed assms(5)
        update_conv')
qed

theorem detached_success_completes_row_witness:
  "designs store_pending (t_designId task1) = Some design1 \<and>
   fault (w_processing jenv_ok) = None \<and>
   fault (w_completed jenv_ok) = None \<and>
   aiService_generateDesign jenv_ok (promptData_of (t_room task1) (t_customPrompt task1))
     (options_of (t_room task1) (t_aiProvider task1)) = Inr result1 \<and>
   imageUrls result1 = ''u1'' # [''u2''] \<and>
   fst (detached jenv_ok task1 store_pending) = Inr () \<and>
   map_option d_status (designs (snd (detached jenv_ok task1 store_pending)) ''d1'') =
     Some COMPLETED \<and>
   map_option d_imageUrl (designs (snd (detached jenv_ok task1 store_pending)) ''d1'') =
     Some ''u1'' \<and>
   map_option d_prompt (designs (snd (detached jenv_ok task1 store_pending)) ''d1'') =
     Some ''p'' \<and>
   map_option d_metadata (designs (snd (detached jenv_ok task1 store_pending)) ''d1'') =
     Some (Some [(''m'', JNum 1), (''allImageUrls'', JArr [JStr ''u1'', JStr ''u2''])]) \<and>
   map_option d_processingTime (designs (snd (detached jenv_ok task1 store_pending)) ''d1'') =
     Some (Some 3000)"
proof -
  have h: "designs store_pending (t_designId task1) = Some design1"
    "fault (w_processing jenv_ok) = None"
    "fault (w_completed jenv_ok) = None"
    "aiService_generateDesign jenv_ok (promptData_of (t_room task1) (t_customPrompt task1))
       (options_of (t_room task1) (t_aiProvider task1)) = Inr result1"
    "imageUrls result1 = ''u1'' # [''u2'']"
    by (simp_all add: store_pending_def task1_def jenv_ok_def call_ok_def provider_ok_def
        result1_def)
  from detached_success_completes_row [OF h]
  obtain s' d' md where r: "detached jenv_ok task1 store_pending = (Inr (), s')"
    "designs s' (t_designId task1) = Some d'"
    "d_status d' = COMPLETED" "d_imageUrl d' = ''u1''" "d_prompt d' = prompt result1"
    "d_metadata d' = Some md"
    "md = AList.update ''allImageUrls'' (JArr (map JStr (imageUrls result1))) (metadata result1)"
    "d_processingTime d' = Some (now_success jenv_ok - now_start jenv_ok)"
    by blast
  have t: "t_designId task1 = ''d1''"
    by (simp add: task1_def)
  have v: "prompt result1 = ''p''"
    "AList.update ''allImageUrls'' (JArr (map JStr (imageUrls result1))) (metadata result1) =
       [(''m'', JNum 1), (''allImageUrls'', JArr [JStr ''u1'', JStr ''u2''])]"
    "now_success jenv_ok - now_start jenv_ok = 3000"
    by (simp_all add: result1_def jenv_ok_def)
  from r show ?thesis
    unfolding t v by (simp add: h [unfolded t])
qed

text \<open>
  C4, as stated, fails: in a run where the provider throws \<^verbatim>\<open>Error("boom")\<close> and the
  store rejects the update of the \<^verbatim>\<open>catch\<close> block, the row ends \<open>FAILED\<close> with the
  store's message and no processing time (the secondary update), or, when the secondary
  update is rejected too, stays in \<open>PROCESSING\<close> with no error recorded.
\<close>

theorem provider_failure_write_rejected_counterexample:
  "aiService_generateDesign jenv_boom_outage
     (promptData_of (room1, project1) (g_customPrompt dto_plants))
     (options_of (room1, project1)
        (case g_aiProvider dto_plants of None \<Rightarrow> ''replicate'' | Some p \<Rightarrow> p)) =
     Inl (JsError ''boom'') \<and>
   map_option d_status
     (designs (snd (snd (generateDesign_then_task env1 jenv_boom_outage ''alice'' dto_plants
        store1))) ''d1'') = Some FAILED \<and>
   map_option d_error
     (designs (snd (snd (generateDesign_then_task env1 jenv_boom_outage ''alice'' dto_plants
        store1))) ''d1'') = Some (Some ''Connection lost'') \<and>
   map_option d_processingTime
     (designs (snd (snd (generateDesign_then_task env1 jenv_boom_outage ''alice'' dto_plants
        store1))) ''d1'') = Some None \<and>
   aiService_generateDesign jenv_boom_outage_long
     (promptData_of (room1, project1) (g_customPrompt dto_plants))
     (options_of (room1, project1)
        (case g_aiProvider dto_plants of None \<Rightarrow> ''replicate'' | Some p \<Rightarrow> p)) =
     Inl (JsError ''boom'') \<and>
   map_option d_status
     (designs (snd (snd (generateDesign_then_task env1 jenv_boom_outage_long ''alice'' dto_plants
        store1))) ''d1'') = Some PROCESSING \<and>
   map_option d_error
     (designs (snd (snd (generateDesign_then_task env1 jenv_boom_outage_long ''alice'' dto_plants
        store1))) ''d1'') = Some None"
proof -
  have h: "rooms store1 (g_roomId dto_plants) = Some room1"
    "projects store1 (r_projectId room1) = Some project1"
    "p_userId project1 = ''alice''"
    "fault (create_call env1) = None"
    "designs store1 (newId env1) = None"
    by (simp_all add: store1_room store1_project store1_no_design dto_plants_def project1_def
        env1_def call_ok_def)
  note c = generateDesign_commit [OF h]
  have n: "newId env1 = ''d1''"
    by (simp add: env1_def)
  have e: "fault (w_processing jenv_boom_outage) = None"
    "fault (w_failed jenv_boom_outage) = Some ''Connection lost''"
    "fault (w_secondary jenv_boom_outage) = None"
    "fault (w_processing jenv_boom_outage_long) = None"
    "fault (w_failed jenv_boom_outage_long) = Some ''Connection lost''"
    "fault (w_secondary jenv_boom_outage_long) = Some ''Connection lost''"
    "aiService_generateDesign jenv_boom_outage = provider_boom"
    "aiService_generateDesign jenv_boom_outage_long = provider_boom"
    by (simp_all add: jenv_boom_outage_long_def jenv_boom_outage_def jenv_boom_def jenv_ok_def
        call_ok_def call_down_def)
  show ?thesis
    by (simp add: generateDesign_then_task_def c n e detached_def processDesignGeneration_def
        processDesignGeneration_catch_def design_update_eq commit_update_sel reject_update_sel
        patched_failed patched_processing patched_secondary or_string_def Let_def
        provider_boom_def created_row_def)
qed

text \<open>
  C4, amended. When the provider call of the background task throws and the store commits
  the update of the \<^verbatim>\<open>catch\<close> block, the row ends in status \<open>FAILED\<close> with the message
  of the thrown error (\<open>''Unknown error''\<close> when the thrown value is no \<^verbatim>\<open>Error\<close>),
  the processing time the reading of the clock in the \<^verbatim>\<open>catch\<close> block minus the reading
  on entry, and the image URL the empty string of its creation; the caller has its answer
  and the detached promise is fulfilled, so nothing is thrown to anyone.
\<close>

theorem provider_failure_is_recorded_on_row:
  assumes "rooms s (g_roomId designData) = Some room"
    and "projects s (r_projectId room) = Some project"
    and "p_userId project = userId"
    and "fault (create_call env) = None"
    and "designs s (newId env) = None"
    and "fault (w_processing jenv) = None"
    and "fault (w_failed jenv) = None"
    and "aiService_generateDesign jenv (promptData_of (room, project) (g_customPrompt designData))
           (options_of (room, project)
              (case g_aiProvider designData of None \<Rightarrow> ''replicate'' | Some p \<Rightarrow> p)) = Inl error"
  shows "\<exists>r s' d'. generateDesign_then_task env jenv userId designData s = (Inr r, Inr (), s') \<and>
     designs s' (newId env) = Some d' \<and>
     d_status d' = FAILED \<and>
     d_error d' = Some (case error of JsError m \<Rightarrow> m | JsNonError \<Rightarrow> ''Unknown error'') \<and>
     d_processingTime d' = Some (now_failure jenv - now_start jenv) \<and>
     d_imageUrl d' = '''' \<and> d_imageUrl d' = d_imageUrl (created_row env designData)"
proof -
  let ?s1 = "s\<lparr>designs := (designs s)(newId env \<mapsto> created_row env designData),
       journal := journal s @ [\<lparr>j_op = CreateOp, j_id = newId env, j_status = Some PENDING,
         j_row = Some (created_row env designData)\<rparr>]\<rparr>"
  let ?t = "\<lparr>t_designId = newId env, t_room = (room, project),
       t_customPrompt = g_customPrompt designData,
       t_aiProvider = (case g_aiProvider designData of None \<Rightarrow> ''replicate'' | Some p \<Rightarrow> p)\<rparr>"
  note g = generateDesign_commit[OF assms(1-5)]
  have row: "designs ?s1 (t_designId ?t) = Some (created_row env designData)"
    by simp
  have prov: "aiService_generateDesign jenv (promptData_of (t_room ?t) (t_customPrompt ?t))
           (options_of (t_room ?t) (t_aiProvider ?t)) = Inl error"
    using assms(8) by simp
  note p = process_provider_failure[OF assms(6) row prov]
  have row2: "designs (commit_update (w_processing jenv) (t_designId ?t) processing_patch
       (created_row env designData) ?s1) (t_designId ?t) =
       Some (patched (w_processing jenv) processing_patch (created_row env designData))"
    by (simp add: commit_update_sel)
  note c = catch_commit[OF assms(7) row2]
  from p c have "processDesignGeneration jenv (t_designId ?t) (t_room ?t) (t_customPrompt ?t)
      (t_aiProvider ?t) ?s1 =
     (Inr (), commit_update (w_failed jenv) (t_designId ?t)
        (failed_patch error (now_failure jenv - now_start jenv))
        (patched (w_processing jenv) processing_patch (created_row env designData))
        (commit_update (w_processing jenv) (t_designId ?t) processing_patch
           (created_row env designData) ?s1))"
    by simp
  note d = detached_resolved[OF this]
  have run: "generateDesign_then_task env jenv userId designData s =
     (Inr (formatDesignResponse (created_row env designData) None False), Inr (),
      commit_update (w_failed jenv) (t_designId ?t)
        (failed_patch error (now_failure jenv - now_start jenv))
        (patched (w_processing jenv) processing_patch (created_row env designData))
        (commit_update (w_processing jenv) (t_designId ?t) processing_patch
           (created_row env designData) ?s1))"
    by (simp add: generateDesign_then_task_def g d)
  show ?thesis
    unfolding run
    by (simp add: commit_update_sel patched_failed patched_processing created_row_def)
qed

theorem provider_failure_is_recorded_on_row_witness:
  "rooms store1 (g_roomId dto_plants) = Some room1 \<and>
   projects store1 (r_projectId room1) = Some project1 \<and>
   p_userId project1 = ''alice'' \<and>
   fault (create_call env1) = None \<and>
   designs store1 (newId env1) = None \<and>
   fault (w_processing jenv_boom) = None \<and>
   fault (w_failed jenv_boom) = None \<and>
   aiService_generateDesign jenv_boom
     (promptData_of (room1, project1) (g_customPrompt dto_plants))
     (options_of (room1, project1)
        (case g_aiProvider dto_plants of None \<Rightarrow> ''replicate'' | Some p \<Rightarrow> p)) =
     Inl (JsError ''boom'') \<and>
   \<not> isl (fst (generateDesign_then_task env1 jenv_boom ''alice'' dto_plants store1)) \<and>
   fst (snd (generateDesign_then_task env1 jenv_boom ''alice'' dto_plants store1)) = Inr () \<and>
   map_option d_status
     (designs (snd (snd (generateDesign_then_task env1 jenv_boom ''alice'' dto_plants store1)))
        ''d1'') = Some FAILED \<and>
   map_option d_error
     (designs (snd (snd (generateDesign_then_task env1 jenv_boom ''alice'' dto_plants store1)))
        ''d1'') = Some (Some ''boom'') \<and>
   map_option d_processingTime
     (designs (snd (snd (generateDesign_then_task env1 jenv_boom ''alice'' dto_plants store1)))
        ''d1'') = Some (Some 3500) \<and>
   map_option d_imageUrl
     (designs (snd (snd (generateDesign_then_task env1 jenv_boom ''alice'' dto_plants store1)))
        ''d1'') = Some ''''"
proof -
  have h: "rooms store1 (g_roomId dto_plants) = Some room1"
    "projects store1 (r_projectId room1) = Some project1"
    "p_userId project1 = ''alice''"
    "fault (create_call env1) = None"
    "designs store1 (newId env1) = None"
    "fault (w_processing jenv_boom) = None"
    "fault (w_failed jenv_boom) = None"
    "aiService_generateDesign jenv_boom
       (promptData_of (room1, project1) (g_customPrompt dto_plants))
       (options_of (room1, project1)
          (case g_aiProvider dto_plants of None \<Rightarrow> ''replicate'' | Some p \<Rightarrow> p)) =
       Inl (JsError ''boom'')"
    by (simp_all add: store1_room store1_project store1_no_design dto_plants_def project1_def
        env1_def call_ok_def jenv_boom_def jenv_ok_def provider_boom_def)
  from provider_failure_is_recorded_on_row [OF h]
  obtain r s' d' where r:
    "generateDesign_then_task env1 jenv_boom ''alice'' dto_plants store1 = (Inr r, Inr (), s')"
    "designs s' (newId env1) = Some d'"
    "d_status d' = FAILED"
    "d_error d' = Some (case JsError ''boom'' of JsError m \<Rightarrow> m | JsNonError \<Rightarrow> ''Unknown error'')"
    "d_processingTime d' = Some (now_failure jenv_boom - now_start jenv_boom)"
    "d_imageUrl d' = ''''"
    by blast
  have v: "newId env1 = ''d1''" "now_failure jenv_boom - now_start jenv_boom = 3500"
    by (simp_all add: env1_def jenv_boom_def jenv_ok_def)
  from r show ?thesis
    unfolding v by (simp add: h store1_no_design)
qed

section \<open>The error boundary of the detached task\<close>

text \<open>
  C7. When the promise of \<^verbatim>\<open>processDesignGeneration\<close> rejects, the handler attempts one
  more update: if the store commits it, the row gets status \<open>FAILED\<close> and the message
  of the rejection (\<open>''Design generation failed''\<close> when there is none); if the store
  rejects it, every table is as the rejected task left it. In all cases the promise of
  the detached call is fulfilled, and the answer to the caller of \<^verbatim>\<open>generateDesign\<close> is
  the one computed before the task ran.
\<close>

theorem detached_rejection_is_contained:
  "(\<forall>error s1 d.
      processDesignGeneration env (t_designId t) (t_room t) (t_customPrompt t) (t_aiProvider t) s
        = (Inl error, s1) \<and>
      fault (w_secondary env) = None \<and> designs s1 (t_designId t) = Some d \<longrightarrow>
      (\<exists>s2. detached env t s = (Inr (), s2) \<and>
         designs s2 (t_designId t) =
           Some (d\<lparr>d_status := FAILED,
                   d_error := Some (or_string (message_of error) ''Design generation failed''),
                   d_updatedAt := clock (w_secondary env)\<rparr>))) \<and>
   (\<forall>error s1.
      processDesignGeneration env (t_designId t) (t_room t) (t_customPrompt t) (t_aiProvider t) s
        = (Inl error, s1) \<and>
      (fault (w_secondary env) \<noteq> None \<or> designs s1 (t_designId t) = None) \<longrightarrow>
      (\<exists>s2. detached env t s = (Inr (), s2) \<and> designs s2 = designs s1 \<and>
         rooms s2 = rooms s1 \<and> projects s2 = projects s1 \<and> uploads s2 = uploads s1)) \<and>
   fst (detached env t s) = Inr () \<and>
   fst (generateDesign_then_task senv env userId designData s) =
     fst (generateDesign senv userId designData s) \<and>
   fst (snd (generateDesign_then_task senv env userId designData s)) = Inr ()"
proof (intro conjI allI impI)
  fix error s1 d
  assume a: "processDesignGeneration env (t_designId t) (t_room t) (t_customPrompt t)
      (t_aiProvider t) s = (Inl error, s1) \<and>
      fault (w_secondary env) = None \<and> designs s1 (t_designId t) = Some d"
  then have "detached env t s =
    (Inr (), commit_update (w_secondary env) (t_designId t) (secondary_patch error) d s1)"
    by (simp add: detached_secondary_commit)
  then show "\<exists>s2. detached env t s = (Inr (), s2) \<and>
         designs s2 (t_designId t) =
           Some (d\<lparr>d_status := FAILED,
                   d_error := Some (or_string (message_of error) ''Design generation failed''),
                   d_updatedAt := clock (w_secondary env)\<rparr>)"
    by (simp add: commit_update_sel patched_secondary)
next
  fix error s1
  assume a: "processDesignGeneration env (t_designId t) (t_room t) (t_customPrompt t)
      (t_aiProvider t) s = (Inl error, s1) \<and>
      (fault (w_secondary env) \<noteq> None \<or> designs s1 (t_designId t) = None)"
  then have "detached env t s =
    (Inr (), reject_update (t_designId t) (secondary_patch error) s1)"
    using detached_secondary_reject by blast
  then show "\<exists>s2. detached env t s = (Inr (), s2) \<and> designs s2 = designs s1 \<and>
         rooms s2 = rooms s1 \<and> projects s2 = projects s1 \<and> uploads s2 = uploads s1"
    by (simp add: reject_update_sel)
next
  show "fst (detached env t s) = Inr ()"
    by (rule detached_never_rejects)
next
  show "fst (generateDesign_then_task senv env userId designData s) =
     fst (generateDesign senv userId designData s)"
    by (rule generateDesign_then_task_answer)
next
  show "fst (snd (generateDesign_then_task senv env userId designData s)) = Inr ()"
    using detached_never_rejects
    by (simp add: generateDesign_then_task_def split: prod.splits option.splits)
qed

lemma outage_rejects:
  assumes "fault (w_processing env) = Some m" "fault (w_failed env) = Some m'"
  shows "processDesignGeneration env designId room customPrompt aiProvider s =
    (Inl (JsError m'),
     reject_update designId (failed_patch (JsError m) (now_failure env - now_start env))
       (reject_update designId processing_patch s))"
  by (simp add: process_first_write_fault[OF assms(1)] catch_fault[OF assms(2)])

theorem detached_rejection_is_contained_witness:
  "fst (processDesignGeneration jenv_outage (t_designId task1) (t_room task1)
          (t_customPrompt task1) (t_aiProvider task1) store_pending) =
     Inl (JsError ''Connection lost'') \<and>
   fault (w_secondary jenv_outage) = None \<and>
   designs (snd (processDesignGeneration jenv_outage (t_designId task1) (t_room task1)
          (t_customPrompt task1) (t_aiProvider task1) store_pending)) (t_designId task1) =
     Some design1 \<and>
   designs (snd (detached jenv_outage task1 store_pending)) (t_designId task1) =
     Some (design1\<lparr>d_status := FAILED, d_error := Some ''Connection lost'',
             d_updatedAt := 32\<rparr>) \<and>
   fst (processDesignGeneration jenv_outage_long (t_designId task1) (t_room task1)
          (t_customPrompt task1) (t_aiProvider task1) store_pending) =
     Inl (JsError ''Connection lost'') \<and>
   fault (w_secondary jenv_outage_long) \<noteq> None \<and>
   designs (snd (detached jenv_outage_long task1 store_pending)) (t_designId task1) =
     Some design1 \<and>
   fst (detached jenv_outage_long task1 store_pending) = Inr ()"
proof -
  let ?s1 = "reject_update (t_designId task1)
       (failed_patch (JsError ''Connection lost'')
          (now_failure jenv_outage - now_start jenv_outage))
       (reject_update (t_designId task1) processing_patch store_pending)"
  let ?s1' = "reject_update (t_designId task1)
       (failed_patch (JsError ''Connection lost'')
          (now_failure jenv_outage_long - now_start jenv_outage_long))
       (reject_update (t_designId task1) processing_patch store_pending)"
  have f: "fault (w_processing jenv_outage) = Some ''Connection lost''"
    "fault (w_failed jenv_outage) = Some ''Connection lost''"
    "fault (w_secondary jenv_outage) = None"
    "clock (w_secondary jenv_outage) = 32"
    by (simp_all add: jenv_outage_def jenv_ok_def call_down_def call_ok_def)
  have f': "fault (w_processing jenv_outage_long) = Some ''Connection lost''"
    "fault (w_failed jenv_outage_long) = Some ''Connection lost''"
    "fault (w_secondary jenv_outage_long) \<noteq> None"
    by (simp_all add: jenv_outage_long_def jenv_outage_def jenv_ok_def call_down_def call_ok_def)
  have row: "designs store_pending (t_designId task1) = Some design1"
    by (simp add: store_pending_def task1_def)
  have p: "processDesignGeneration jenv_outage (t_designId task1) (t_room task1)
      (t_customPrompt task1) (t_aiProvider task1) store_pending =
      (Inl (JsError ''Connection lost''), ?s1)"
    by (rule outage_rejects[OF f(1,2)])
  have p': "processDesignGeneration jenv_outage_long (t_designId task1) (t_room task1)
      (t_customPrompt task1) (t_aiProvider task1) store_pending =
      (Inl (JsError ''Connection lost''), ?s1')"
    by (rule outage_rejects[OF f'(1,2)])
  have r1: "designs ?s1 (t_designId task1) = Some design1"
    by (simp add: reject_update_sel row)
  have r1': "designs ?s1' = designs store_pending"
    by (simp add: reject_update_sel)
  note c = detached_rejection_is_contained [of jenv_outage task1 store_pending]
  note c' = detached_rejection_is_contained [of jenv_outage_long task1 store_pending]
  from c p f(3) r1 obtain s2 where s2: "detached jenv_outage task1 store_pending = (Inr (), s2)"
    "designs s2 (t_designId task1) =
       Some (design1\<lparr>d_status := FAILED,
          d_error := Some (or_string (message_of (JsError ''Connection lost''))
                             ''Design generation failed''),
          d_updatedAt := clock (w_secondary jenv_outage)\<rparr>)"
    by blast
  from c' p' f'(3) obtain s3 where s3:
    "detached jenv_outage_long task1 store_pending = (Inr (), s3)" "designs s3 = designs ?s1'"
    by blast
  show ?thesis
    using s2 s3 by (simp add: p p' f f' r1 r1' row or_string_def)
qed

section \<open>The order of the writes to one design row\<close>

lemma detached_shape:
  assumes "designs s (t_designId t) = Some d" "d_status d = PENDING"
  shows "journal (snd (detached jenv t s)) = journal s @ added_writes s (snd (detached jenv t s)) \<and>
     list_all (\<lambda>e. j_id e = t_designId t \<and> j_op e = UpdateOp) (added_writes s (snd (detached jenv t s))) \<and>
     take 1 (attempted_statuses (added_writes s (snd (detached jenv t s)))) = [PROCESSING] \<and>
     list_all terminal (drop 1 (attempted_statuses (added_writes s (snd (detached jenv t s))))) \<and>
     committed_statuses (added_writes s (snd (detached jenv t s))) \<in> set [[], [PROCESSING], [PROCESSING, COMPLETED],
        [PROCESSING, FAILED], [FAILED]] \<and>
     map_option d_status (designs (snd (detached jenv t s)) (t_designId t)) =
        Some (last (PENDING # committed_statuses (added_writes s (snd (detached jenv t s)))))"
  using assms
  by (simp add: detached_def processDesignGeneration_def processDesignGeneration_catch_def
      design_update_eq commit_update_sel reject_update_sel patch_status patched_status
      Let_def attempted_statuses_def committed_statuses_def
      List.map_filter_def terminal_def added_writes_def
      split: option.splits sum.splits)

lemma statuses_Cons:
  "attempted_statuses (e # es) =
     (case j_status e of None \<Rightarrow> attempted_statuses es | Some st \<Rightarrow> st # attempted_statuses es)"
  "committed_statuses (e # es) =
     (case j_row e of None \<Rightarrow> committed_statuses es | Some d \<Rightarrow> d_status d # committed_statuses es)"
  by (simp_all add: attempted_statuses_def committed_statuses_def List.map_filter_def
      split: option.splits)

text \<open>
  C5. For a design created by \<^verbatim>\<open>generateDesign\<close>, the writes the request and its task
  add to the journal all address that design's id; the first is the create and the others
  are updates; the statuses they try to set are \<open>PENDING\<close>, then \<open>PROCESSING\<close>, then
  terminal statuses only; the statuses the row takes, those of the committed writes, are
  \<open>PENDING\<close>, then possibly \<open>PROCESSING\<close>, then possibly one terminal status, so that
  no committed write follows a terminal one; and the status of the row at the end is the
  last of them.
\<close>

theorem job_writes_are_ordered:
  fixes jenv :: job_env
  assumes "generateDesign env userId designData s = (Inr r, s1, t)"
  defines "s2 \<equiv> snd (snd (generateDesign_then_task env jenv userId designData s))"
  defines "new \<equiv> added_writes s (snd (snd (generateDesign_then_task env jenv userId designData s)))"
  shows "journal s2 = journal s @ new \<and>
     list_all (\<lambda>e. j_id e = f_id r) new \<and>
     j_op (hd new) = CreateOp \<and> list_all (\<lambda>e. j_op e = UpdateOp) (tl new) \<and>
     take 2 (attempted_statuses new) = [PENDING, PROCESSING] \<and>
     list_all terminal (drop 2 (attempted_statuses new)) \<and>
     committed_statuses new \<in> set [[PENDING], [PENDING, PROCESSING],
        [PENDING, PROCESSING, COMPLETED], [PENDING, PROCESSING, FAILED], [PENDING, FAILED]] \<and>
     list_all (\<lambda>st. \<not> terminal st) (butlast (committed_statuses new)) \<and>
     map_option d_status (designs s2 (f_id r)) = Some (last (committed_statuses new))"
proof -
  from generateDesign_Inr_only_if[OF assms(1)] obtain room project where
    h: "rooms s (g_roomId designData) = Some room" "projects s (r_projectId room) = Some project"
      "p_userId project = userId" "fault (create_call env) = None" "designs s (newId env) = None"
    by blast
  let ?c = "\<lparr>j_op = CreateOp, j_id = newId env, j_status = Some PENDING,
         j_row = Some (created_row env designData)\<rparr>"
  let ?s1 = "s\<lparr>designs := (designs s)(newId env \<mapsto> created_row env designData),
       journal := journal s @ [?c]\<rparr>"
  let ?t = "\<lparr>t_designId = newId env, t_room = (room, project),
       t_customPrompt = g_customPrompt designData,
       t_aiProvider = (case g_aiProvider designData of None \<Rightarrow> ''replicate'' | Some p \<Rightarrow> p)\<rparr>"
  note g = generateDesign_commit[OF h]
  from g assms(1) have r: "r = formatDesignResponse (created_row env designData) None False"
    by simp
  have id: "f_id r = newId env" "t_designId ?t = newId env"
    by (simp_all add: r formatDesignResponse_def created_row_def)
  have row: "designs ?s1 (t_designId ?t) = Some (created_row env designData)"
    "d_status (created_row env designData) = PENDING"
    by (simp_all add: created_row_def)
  let ?s2 = "snd (detached jenv ?t ?s1)"
  let ?n = "added_writes ?s1 ?s2"
  note sh = detached_shape[OF row, of jenv]
  have s2: "s2 = ?s2"
    by (simp add: s2_def generateDesign_then_task_def g split: prod.splits)
  from sh have j: "journal ?s2 = journal s @ ?c # ?n"
    by simp
  have new: "new = ?c # ?n"
    unfolding new_def s2[unfolded s2_def] added_writes_def[of s] j by simp
  from sh have c: "committed_statuses ?n = [] \<or> committed_statuses ?n = [PROCESSING] \<or>
     committed_statuses ?n = [PROCESSING, COMPLETED] \<or>
     committed_statuses ?n = [PROCESSING, FAILED] \<or> committed_statuses ?n = [FAILED]"
    by simp
  have 1: "journal s2 = journal s @ new"
    by (simp add: s2 new j)
  have 2: "list_all (\<lambda>e. j_id e = f_id r) new"
    using sh by (simp add: new id list_all_iff)
  have 3: "j_op (hd new) = CreateOp \<and> list_all (\<lambda>e. j_op e = UpdateOp) (tl new)"
    using sh by (simp add: new list_all_iff)
  have 4: "take 2 (attempted_statuses new) = [PENDING, PROCESSING] \<and>
     list_all terminal (drop 2 (attempted_statuses new))"
    using sh by (simp add: new statuses_Cons)
  have 5: "committed_statuses new \<in> set [[PENDING], [PENDING, PROCESSING],
        [PENDING, PROCESSING, COMPLETED], [PENDING, PROCESSING, FAILED], [PENDING, FAILED]] \<and>
     list_all (\<lambda>st. \<not> terminal st) (butlast (committed_statuses new))"
    using c by (auto simp add: new statuses_Cons row terminal_def)
  have 6: "map_option d_status (designs s2 (f_id r)) = Some (last (committed_statuses new))"
    using sh by (simp add: s2 new statuses_Cons row id)
  from 1 2 3 4 5 6 show ?thesis by blast
qed

theorem job_writes_are_ordered_witness:
  "generateDesign env1 ''alice'' dto_plants store1 =
     (fst (generateDesign env1 ''alice'' dto_plants store1),
      fst (snd (generateDesign env1 ''alice'' dto_plants store1)),
      snd (snd (generateDesign env1 ''alice'' dto_plants store1))) \<and>
   \<not> isl (fst (generateDesign env1 ''alice'' dto_plants store1)) \<and>
   take 2 (attempted_statuses (added_writes store1
     (snd (snd (generateDesign_then_task env1 jenv_outage ''alice'' dto_plants store1))))) =
     [PENDING, PROCESSING] \<and>
   list_all terminal (drop 2 (attempted_statuses (added_writes store1
     (snd (snd (generateDesign_then_task env1 jenv_outage ''alice'' dto_plants store1)))))) \<and>
   list_all (\<lambda>st. \<not> terminal st) (butlast (committed_statuses (added_writes store1
     (snd (snd (generateDesign_then_task env1 jenv_outage ''alice'' dto_plants store1)))))) \<and>
   map_option d_status
     (designs (snd (snd (generateDesign_then_task env1 jenv_outage ''alice'' dto_plants store1)))
        (f_id (projr (fst (generateDesign env1 ''alice'' dto_plants store1))))) =
     Some (last (committed_statuses (added_writes store1
       (snd (snd (generateDesign_then_task env1 jenv_outage ''alice'' dto_plants store1))))))"
proof -
  have h: "rooms store1 (g_roomId dto_plants) = Some room1"
    "projects store1 (r_projectId room1) = Some project1"
    "p_userId project1 = ''alice''"
    "fault (create_call env1) = None"
    "designs store1 (newId env1) = None"
    by (simp_all add: store1_room store1_project store1_no_design dto_plants_def project1_def
        env1_def call_ok_def)
  note c = generateDesign_commit [OF h]
  from job_writes_are_ordered [OF c, of jenv_outage] show ?thesis
    by (simp add: c)
qed

section \<open>Regeneration creates a sibling\<close>

lemma detached_other_rows:
  assumes "k \<noteq> t_designId t"
  shows "designs (snd (detached jenv t s)) k = designs s k"
  using assms
  by (simp add: detached_def processDesignGeneration_def processDesignGeneration_catch_def
      design_update_eq commit_update_sel reject_update_sel Let_def
      split: option.splits sum.splits)

lemma regenerateDesign_commit:
  assumes "designs s designId = Some originalDesign"
    and "rooms s (d_roomId originalDesign) = Some room"
    and "projects s (r_projectId room) = Some project"
    and "p_userId project = userId"
    and "fault (create_call env) = None"
    and "designs s (newId env) = None"
  shows "\<exists>r s' t d. regenerateDesign env designId userId options s = (Inr r, s', Some t) \<and>
     f_id r = newId env \<and> f_id r \<noteq> designId \<and> designs s (f_id r) = None \<and>
     designs s' (f_id r) = Some d \<and> d_roomId d = d_roomId originalDesign \<and>
     d_status d = PENDING \<and> f_roomId r = d_roomId originalDesign \<and>
     designs s' designId = Some originalDesign \<and>
     (\<forall>jenv. designs (snd (snd (regenerateDesign_then_task env jenv designId userId options s)))
        designId = Some originalDesign) \<and>
     (options = None \<or> options = Some \<lparr>ro_aiProvider = None, ro_customPrompt = None\<rparr> \<longrightarrow>
        t_customPrompt t = Some (d_prompt originalDesign) \<and>
        t_aiProvider t = d_aiProvider originalDesign \<and>
        f_prompt r = d_prompt originalDesign \<and>
        f_aiProvider r = d_aiProvider originalDesign)"
proof -
  let ?dto = "regenerate_dto originalDesign options"
  have ne: "designId \<noteq> newId env"
    using assms(1,6) by auto
  have f: "design_findUnique s designId = Inr (Some (originalDesign, room, project))"
    by (simp add: design_findUnique_def room_findUnique_def assms(1-3))
  have rid: "g_roomId ?dto = d_roomId originalDesign"
    by (simp add: regenerate_dto_def)
  note g = generateDesign_commit[of s ?dto, unfolded rid, OF assms(2-6)]
  have re: "regenerateDesign env designId userId options s =
     generateDesign env userId ?dto s"
    by (simp add: regenerateDesign_def f assms(4))
  let ?s1 = "s\<lparr>designs := (designs s)(newId env \<mapsto> created_row env ?dto),
       journal := journal s @ [\<lparr>j_op = CreateOp, j_id = newId env, j_status = Some PENDING,
         j_row = Some (created_row env ?dto)\<rparr>]\<rparr>"
  let ?t = "\<lparr>t_designId = newId env, t_room = (room, project),
       t_customPrompt = g_customPrompt ?dto,
       t_aiProvider = (case g_aiProvider ?dto of None \<Rightarrow> ''replicate'' | Some p \<Rightarrow> p)\<rparr>"
  have run: "\<And>jenv. snd (snd (regenerateDesign_then_task env jenv designId userId options s)) =
     snd (detached jenv ?t ?s1)"
    by (simp add: regenerateDesign_then_task_def re g split: prod.splits)
  have keep: "\<And>jenv. designs (snd (detached jenv ?t ?s1)) designId = Some originalDesign"
    using ne by (simp add: detached_other_rows assms(1))
  have dflt: "options = None \<or> options = Some \<lparr>ro_aiProvider = None, ro_customPrompt = None\<rparr> \<Longrightarrow>
     g_customPrompt ?dto = Some (d_prompt originalDesign) \<and>
     g_aiProvider ?dto = Some (d_aiProvider originalDesign)"
    by (auto simp add: regenerate_dto_def or_string_def)
  show ?thesis
    unfolding re g run
    using ne keep dflt
    by (auto simp add: formatDesignResponse_def created_row_def assms(1,6) rid or_string_empty)
qed

text \<open>
  C8. A regenerate call by the owner of an existing design is answered with a design as
  soon as the store creates the new row; and whenever it is answered with a design, that
  design's id is new (it names no row of the store before the call, so it differs from
  the original's) and its room is the original's; the original row is the same after the
  call, and still the same after the new design's task has run, whatever that task meets;
  and without overrides the prompt and the provider handed to the new generation are the
  original's.
\<close>

theorem regenerateDesign_creates_sibling:
  assumes "designs s designId = Some originalDesign"
    and "rooms s (d_roomId originalDesign) = Some room"
    and "projects s (r_projectId room) = Some project"
    and "p_userId project = userId"
  shows "(fault (create_call env) = None \<and> designs s (newId env) = None \<longrightarrow>
      \<not> isl (fst (regenerateDesign env designId userId options s))) \<and>
    (\<forall>r s' t. regenerateDesign env designId userId options s = (Inr r, s', t) \<longrightarrow>
      designs s (f_id r) = None \<and> f_id r \<noteq> designId \<and>
      (\<exists>d. designs s' (f_id r) = Some d \<and> d_roomId d = d_roomId originalDesign \<and>
         d_status d = PENDING) \<and>
      f_roomId r = d_roomId originalDesign \<and>
      designs s' designId = Some originalDesign \<and>
      (\<forall>jenv. designs (snd (snd (regenerateDesign_then_task env jenv designId userId options s)))
         designId = Some originalDesign) \<and>
      (options = None \<or> options = Some \<lparr>ro_aiProvider = None, ro_customPrompt = None\<rparr> \<longrightarrow>
         (\<exists>task. t = Some task \<and> t_customPrompt task = Some (d_prompt originalDesign) \<and>
            t_aiProvider task = d_aiProvider originalDesign) \<and>
         f_prompt r = d_prompt originalDesign \<and>
         f_aiProvider r = d_aiProvider originalDesign))"
proof (rule conjI)
  show "fault (create_call env) = None \<and> designs s (newId env) = None \<longrightarrow>
      \<not> isl (fst (regenerateDesign env designId userId options s))"
  proof
    assume "fault (create_call env) = None \<and> designs s (newId env) = None"
    then have c: "fault (create_call env) = None" "designs s (newId env) = None"
      by simp_all
    from regenerateDesign_commit[OF assms c, of options]
    show "\<not> isl (fst (regenerateDesign env designId userId options s))"
      by auto
  qed
next
  have f: "design_findUnique s designId = Inr (Some (originalDesign, room, project))"
    by (simp add: design_findUnique_def room_findUnique_def assms(1-3))
  have re: "regenerateDesign env designId userId options s =
     generateDesign env userId (regenerate_dto originalDesign options) s"
    by (simp add: regenerateDesign_def f assms(4))
  show "\<forall>r s' t. regenerateDesign env designId userId options s = (Inr r, s', t) \<longrightarrow>
      designs s (f_id r) = None \<and> f_id r \<noteq> designId \<and>
      (\<exists>d. designs s' (f_id r) = Some d \<and> d_roomId d = d_roomId originalDesign \<and>
         d_status d = PENDING) \<and>
      f_roomId r = d_roomId originalDesign \<and>
      designs s' designId = Some originalDesign \<and>
      (\<forall>jenv. designs (snd (snd (regenerateDesign_then_task env jenv designId userId options s)))
         designId = Some originalDesign) \<and>
      (options = None \<or> options = Some \<lparr>ro_aiProvider = None, ro_customPrompt = None\<rparr> \<longrightarrow>
         (\<exists>task. t = Some task \<and> t_customPrompt task = Some (d_prompt originalDesign) \<and>
            t_aiProvider task = d_aiProvider originalDesign) \<and>
         f_prompt r = d_prompt originalDesign \<and>
         f_aiProvider r = d_aiProvider originalDesign)"
  proof (intro allI impI)
  fix r s' t
  assume ok: "regenerateDesign env designId userId options s = (Inr r, s', t)"
  from generateDesign_Inr_only_if[OF ok[unfolded re]]
  have c: "fault (create_call env) = None" "designs s (newId env) = None"
    by auto
  from regenerateDesign_commit[OF assms c, of options] ok
  show "designs s (f_id r) = None \<and> f_id r \<noteq> designId \<and>
      (\<exists>d. designs s' (f_id r) = Some d \<and> d_roomId d = d_roomId originalDesign \<and>
         d_status d = PENDING) \<and>
      f_roomId r = d_roomId originalDesign \<and>
      designs s' designId = Some originalDesign \<and>
      (\<forall>jenv. designs (snd (snd (regenerateDesign_then_task env jenv designId userId options s)))
         designId = Some originalDesign) \<and>
      (options = None \<or> options = Some \<lparr>ro_aiProvider = None, ro_customPrompt = None\<rparr> \<longrightarrow>
         (\<exists>task. t = Some task \<and> t_customPrompt task = Some (d_prompt originalDesign) \<and>
            t_aiProvider task = d_aiProvider originalDesign) \<and>
         f_prompt r = d_prompt originalDesign \<and>
         f_aiProvider r = d_aiProvider originalDesign)"
    by auto
  qed
qed

theorem regenerateDesign_creates_sibling_witness:
  "designs store_pending ''d1'' = Some design1 \<and>
   rooms store_pending (d_roomId design1) = Some room1 \<and>
   projects store_pending (r_projectId room1) = Some project1 \<and>
   p_userId project1 = ''alice'' \<and>
   fault (create_call env2) = None \<and>
   designs store_pending (newId env2) = None \<and>
   \<not> isl (fst (regenerateDesign env2 ''d1'' ''alice'' None store_pending)) \<and>
   designs store_pending
     (f_id (projr (fst (regenerateDesign env2 ''d1'' ''alice'' None store_pending)))) = None \<and>
   f_id (projr (fst (regenerateDesign env2 ''d1'' ''alice'' None store_pending))) \<noteq> ''d1'' \<and>
   f_roomId (projr (fst (regenerateDesign env2 ''d1'' ''alice'' None store_pending))) = ''r1'' \<and>
   f_prompt (projr (fst (regenerateDesign env2 ''d1'' ''alice'' None store_pending))) =
     ''Add plants'' \<and>
   f_aiProvider (projr (fst (regenerateDesign env2 ''d1'' ''alice'' None store_pending))) =
     ''openai'' \<and>
   designs (fst (snd (regenerateDesign env2 ''d1'' ''alice'' None store_pending))) ''d1'' =
     Some design1 \<and>
   designs (snd (snd (regenerateDesign_then_task env2 jenv_ok ''d1'' ''alice'' None
     store_pending))) ''d1'' = Some design1"
proof -
  let ?X = "regenerateDesign env2 ''d1'' ''alice'' None store_pending"
  have h: "designs store_pending ''d1'' = Some design1"
    "rooms store_pending (d_roomId design1) = Some room1"
    "projects store_pending (r_projectId room1) = Some project1"
    "p_userId project1 = ''alice''"
    by (simp_all add: store_pending_def store1_def design1_def room1_def project1_def)
  have c: "fault (create_call env2) = None \<and> designs store_pending (newId env2) = None"
    by (simp add: store_pending_def env2_def call_ok_def)
  note th = regenerateDesign_creates_sibling [OF h, of env2 None]
  from th c have ok: "\<not> isl (fst ?X)"
    by blast
  then have X: "?X = (Inr (projr (fst ?X)), fst (snd ?X), snd (snd ?X))"
    by (cases ?X, cases "fst ?X") auto
  from th X have "designs store_pending (f_id (projr (fst ?X))) = None \<and>
      f_id (projr (fst ?X)) \<noteq> ''d1'' \<and>
      f_roomId (projr (fst ?X)) = d_roomId design1 \<and>
      designs (fst (snd ?X)) ''d1'' = Some design1 \<and>
      designs (snd (snd (regenerateDesign_then_task env2 jenv_ok ''d1'' ''alice'' None
         store_pending))) ''d1'' = Some design1 \<and>
      f_prompt (projr (fst ?X)) = d_prompt design1 \<and>
      f_aiProvider (projr (fst ?X)) = d_aiProvider design1"
    by blast
  moreover have "d_roomId design1 = ''r1''" "d_prompt design1 = ''Add plants''"
    "d_aiProvider design1 = ''openai''"
    by (simp_all add: design1_def)
  ultimately show ?thesis
    using h c ok by simp
qed

section \<open>The authorization gate\<close>

lemma getDesignById_gate:
  assumes "getDesignById designId userId s = Inr r"
  shows "\<exists>design room project. designs s designId = Some design \<and>
     rooms s (d_roomId design) = Some room \<and> projects s (r_projectId room) = Some project \<and>
     p_userId project = userId"
  using assms
  by (auto simp add: getDesignById_def design_findUnique_def room_findUnique_def
      split: option.splits sum.splits if_splits)


text \<open>
  C1 fails at the upload read operation. The handler \<^verbatim>\<open>getUpload\<close> drops the requesting
  user and \<^verbatim>\<open>getUploadById\<close> checks no ownership: the user \<open>bob\<close>, who owns nothing,
  is given the details of an upload attached to a room of \<open>alice\<close>'s project, its URL
  and the owner's id included. The sibling operations on the same rows do apply the gate:
  \<^verbatim>\<open>deleteUpload\<close> and \<^verbatim>\<open>getDesignById\<close> refuse \<open>bob\<close> with the access-denied
  error.
\<close>

theorem getUpload_reveals_foreign_upload:
  "getUpload ''bob'' ''u1'' store1 =
     Inr \<lparr>v_id = ''u1'', v_filename = ''bedroom.jpg'', v_originalName = ''bedroom.jpg'',
       v_mimeType = ''image/jpeg'', v_size = 1024, v_url = ''https://cdn/bedroom.jpg'',
       v_cloudinaryId = Some ''bedroom'', v_metadata = None, v_createdAt = 5,
       v_room = Some \<lparr>ur_id = ''r1'', ur_name = Some ''Bedroom'', ur_type = ''BEDROOM'',
         ur_project = \<lparr>up_id = ''p1'', up_name = ''Flat'', up_userId = ''alice''\<rparr>\<rparr>\<rparr> \<and>
   fst (deleteUpload ''u1'' ''bob'' store1) =
     Inl (AppError ''Access denied. You can only delete your own uploads.'' 403 ''ACCESS_DENIED'') \<and>
   getDesignById ''d1'' ''bob'' store_pending =
     Inl (AppError ''Access denied. You can only view your own designs.'' 403 ''ACCESS_DENIED'')"
  by (simp add: getUpload_def getUploadById_def deleteUpload_def getDesignById_def
      upload_findUnique_def design_findUnique_def room_findUnique_def
      store_pending_def store1_def upload1_def room1_def project1_def design1_def)

end
